theory Spec2Isabelle
  imports Main
begin

section \<open>MessagingUtilities: three senders over their libraries\<close>

text \<open>
  The package has three functions, \<open>SendSMTPEmailMessage\<close>, \<open>SendTwilioSmsMessage\<close> and
  \<open>SendAfricasTalkingSmsMessage\<close> (\<^verbatim>\<open>MessagingUtilities.go\<close>), and a second revision of the
  Africa's Talking sender (the unnamed file, here \<open>SendAfricasTalkingSmsMessage_variant\<close>).
  Each is a straight line of checks around calls into a library: gomail, the Twilio client,
  net/http, encoding/json, strconv.

  A Go string is a sequence of bytes, and so is an Isabelle \<open>string\<close>. A Go \<open>error\<close> is
  modelled by its \<open>Error()\<close> text, and the returned \<open>error\<close> by an option: \<open>None\<close> is
  \<open>nil\<close>. A pointer argument is an option, \<open>None\<close> for \<open>nil\<close>; dereferencing \<open>nil\<close>
  panics, which is the outcome \<open>Panicked\<close>. Every sender returns its outcome together with
  the list of calls it made to the outside, in order.
\<close>

type_synonym error = string

datatype 'a outcome = Returned 'a | Panicked

subsection \<open>Strings and formatting\<close>

text \<open>\<open>strings.HasPrefix\<close> and \<open>strings.Contains\<close>, on bytes.\<close>

fun strings_HasPrefix :: "string \<Rightarrow> string \<Rightarrow> bool" where
  "strings_HasPrefix s [] = True"
| "strings_HasPrefix [] (p # ps) = False"
| "strings_HasPrefix (c # cs) (p # ps) = (c = p \<and> strings_HasPrefix cs ps)"

fun strings_Contains :: "string \<Rightarrow> string \<Rightarrow> bool" where
  "strings_Contains [] substr = (substr = [])"
| "strings_Contains (c # cs) substr =
     (strings_HasPrefix (c # cs) substr \<or> strings_Contains cs substr)"

text \<open>
  The plain bytes: printable ASCII other than the double quote and the backslash.
\<close>

definition plain_char :: "char \<Rightarrow> bool" where
  "plain_char c =
     (0x20 \<le> (of_char c :: nat) \<and> (of_char c :: nat) \<le> 0x7E \<and> c \<noteq> CHR 0x22 \<and> c \<noteq> CHR 0x5C)"

text \<open>The verb \<open>%d\<close> of \<open>fmt\<close> on an \<open>int\<close>: decimal digits, a minus sign when negative.\<close>

definition digit_char :: "nat \<Rightarrow> char" where
  "digit_char d = ''0123456789'' ! d"

fun fmt_nat :: "nat \<Rightarrow> string" where
  "fmt_nat n = (if n < 10 then [digit_char n] else fmt_nat (n div 10) @ [digit_char (n mod 10)])"

declare fmt_nat.simps [simp del]

definition fmt_d :: "int \<Rightarrow> string" where
  "fmt_d i = (if i < 0 then CHR ''-'' # fmt_nat (nat (- i)) else fmt_nat (nat i))"

subsection \<open>Readers\<close>

text \<open>
  An \<open>io.Reader\<close> is a stream that is read once. It is modelled by what reading it to the
  end yields: the bytes, and the error that ended the stream (\<open>None\<close> at a clean end of
  file). \<open>io.ReadAll\<close> returns both. \<open>io.Copy\<close> appends the bytes to the writer, here a
  buffer, and returns the error; on a \<open>nil\<close> reader it panics.
\<close>

datatype Reader = Reader (content: string) (failure: "error option")

definition io_ReadAll :: "Reader \<Rightarrow> string \<times> error option" where
  "io_ReadAll r = (content r, failure r)"

definition io_Copy :: "string \<Rightarrow> Reader option \<Rightarrow> (string \<times> error option) outcome" where
  "io_Copy buf src =
     (case src of None \<Rightarrow> Panicked | Some r \<Rightarrow> Returned (buf @ content r, failure r))"

subsection \<open>The data of the package\<close>

record SMTPCredentials =
  Host :: string
  Port :: string
  User :: string
  Sender :: string
  Password :: string
  UseTLS :: bool

record EmailAttachment =
  Data :: "Reader option"
  Name :: "string option"

record TwilioCredentials =
  AccountSID :: string
  AuthToken :: string
  SenderPhoneNumber :: string
  SenderName :: string

record AfricasTalkingCredentials =
  ApiKey :: string
  Username :: string
  SenderID :: string

text \<open>\<open>atSmsRequest\<close>: the JSON payload of the first revision.\<close>

record atSmsRequest =
  req_Username :: string
  req_To :: string
  req_Message :: string
  req_From :: string

text \<open>\<open>atSmsResponse\<close> of the first revision: the status text under \<open>SMSMessageData\<close>.\<close>

record SMSMessageData_t =
  Message :: string

record atSmsResponse =
  SMSMessageData :: SMSMessageData_t

text \<open>\<open>atSmsResponse\<close> of the second revision: it also lists the recipients.\<close>

record atSmsResponseRecipient =
  status :: string

record SMSMessageData_v =
  Message_v :: string
  Recipients :: "atSmsResponseRecipient list"

record atSmsResponse_v =
  SMSMessageData_v :: SMSMessageData_v

subsection \<open>What the libraries hold\<close>

text \<open>
  An \<open>http.Request\<close> by its method, URL, body and header; \<open>Header.Set\<close> replaces the
  values of a key (the keys are kept as the source writes them; no property below reads the
  header). An \<open>http.Response\<close> by its status code and its body.
\<close>

record Request =
  Method :: string
  URL :: string
  ReqBody :: string
  Header :: "string \<rightharpoonup> string list"

definition Header_Set :: "string \<Rightarrow> string \<Rightarrow> Request \<Rightarrow> Request" where
  "Header_Set k v r = r\<lparr>Header := (Header r)(k \<mapsto> [v])\<rparr>"

record Response =
  StatusCode :: int
  Body :: Reader

text \<open>
  The Twilio client by the parameters it was made from, and the three fields of
  \<open>CreateMessageParams\<close> the sender sets (each a pointer in the library, unset at first).
\<close>

record ClientParams =
  cp_Username :: string
  cp_Password :: string

datatype RestClient = NewRestClientWithParams ClientParams

record CreateMessageParams =
  p_Body :: "string option"
  p_From :: "string option"
  p_To :: "string option"

definition empty_CreateMessageParams :: CreateMessageParams where
  "empty_CreateMessageParams = \<lparr>p_Body = None, p_From = None, p_To = None\<rparr>"

text \<open>
  A gomail message is modelled by the calls made on it, in order. A file setting is either
  \<open>gomail.SetHeader\<close> with its map or \<open>gomail.SetCopyFunc\<close> with its function from the
  writer (a buffer) to the buffer written and the error. A dialer by the arguments of
  \<open>gomail.NewDialer\<close>.
\<close>

datatype FileSetting =
    SetHeader "(string \<times> string list) list"
  | SetCopyFunc "string \<Rightarrow> (string \<times> error option) outcome"

datatype message_call =
    Msg_SetHeader string "string list"
  | Msg_SetBody string string
  | Msg_Attach string "FileSetting list"

type_synonym Message = "message_call list"

datatype Dialer = NewDialer string int string string

text \<open>
  What gomail makes of \<open>Attach(filename, settings...)\<close>: a \<open>file\<close> whose name is
  \<open>filepath.Base(filename)\<close>, whose header is empty and whose copy function opens
  \<open>filename\<close> on disk, and to which the settings are then applied in order: \<open>SetHeader\<close>
  stores every entry of its map in the header, \<open>SetCopyFunc\<close> replaces the copy function.
  \<open>filepath.Base\<close> is the one of a platform whose path separator is the slash and which has
  no volume names: the empty path gives a dot, trailing slashes are dropped, what follows the
  last slash is kept, and a path of slashes only gives a slash.
\<close>

definition filepath_Base :: "string \<Rightarrow> string" where
  "filepath_Base path =
     (if path = [] then ''.''
      else
        let stripped = rev (dropWhile (\<lambda>c. c = CHR ''/'') (rev path));
            element = rev (takeWhile (\<lambda>c. c \<noteq> CHR ''/'') (rev stripped))
        in if element = [] then ''/'' else element)"

datatype copy_source =
    OpenFile string
  | CopyFunc "string \<Rightarrow> (string \<times> error option) outcome"

record gomail_file =
  file_Name :: string
  file_Header :: "string \<rightharpoonup> string list"
  file_CopyFunc :: copy_source

fun apply_setting :: "gomail_file \<Rightarrow> FileSetting \<Rightarrow> gomail_file" where
  "apply_setting f (SetHeader h) =
     f\<lparr>file_Header := fold (\<lambda>(k, v) header. header(k \<mapsto> v)) h (file_Header f)\<rparr>"
| "apply_setting f (SetCopyFunc g) = f\<lparr>file_CopyFunc := CopyFunc g\<rparr>"

definition appendFile :: "string \<Rightarrow> FileSetting list \<Rightarrow> gomail_file" where
  "appendFile name settings =
     foldl apply_setting
       \<lparr>file_Name = filepath_Base name, file_Header = Map.empty, file_CopyFunc = OpenFile name\<rparr>
       settings"

text \<open>
  What gomail writes for the body of an attachment (\<open>writeBody\<close> with the \<open>Base64\<close>
  encoding): it runs the copy function on \<open>base64.NewEncoder(base64.StdEncoding, ...)\<close>
  over its \<open>base64LineWriter\<close>. So the bytes the copy function writes are encoded in the
  standard alphabet, three bytes to four characters with \<open>=\<close> padding at the end, and the
  characters are written in lines of 76, a line break (CR LF) before each further line.
\<close>

definition encodeStd :: string where
  "encodeStd = ''ABCDEFGHIJKLMNOPQRSTUVWXYZabcdefghijklmnopqrstuvwxyz0123456789+/''"

fun base64_Encode :: "string \<Rightarrow> string" where
  "base64_Encode [] = []"
| "base64_Encode [a] =
     (let m = (of_char a :: nat)
      in [encodeStd ! (m div 4), encodeStd ! ((m mod 4) * 16), CHR ''='', CHR ''=''])"
| "base64_Encode [a, b] =
     (let m = (of_char a :: nat); n = (of_char b :: nat)
      in [encodeStd ! (m div 4), encodeStd ! ((m mod 4) * 16 + n div 16),
          encodeStd ! ((n mod 16) * 4), CHR ''=''])"
| "base64_Encode (a # b # c # rest) =
     (let m = (of_char a :: nat); n = (of_char b :: nat); k = (of_char c :: nat)
      in [encodeStd ! (m div 4), encodeStd ! ((m mod 4) * 16 + n div 16),
          encodeStd ! ((n mod 16) * 4 + k div 64), encodeStd ! (k mod 64)]
         @ base64_Encode rest)"

function base64LineWriter :: "string \<Rightarrow> string" where
  "base64LineWriter p =
     (if 76 < length p then take 76 p @ [CHR 0x0D, CHR 0x0A] @ base64LineWriter (drop 76 p)
      else p)"
  by pat_completeness auto
termination
  by (relation "measure length") auto

declare base64LineWriter.simps [simp del]

definition writeBody ::
  "(string \<Rightarrow> (string \<times> error option) outcome) \<Rightarrow> (string \<times> error option) outcome" where
  "writeBody f =
     (case f [] of
        Panicked \<Rightarrow> Panicked
      | Returned (written, err) \<Rightarrow> Returned (base64LineWriter (base64_Encode written), err))"

text \<open>
  What a recipient does to read the bytes of such a body back (base64 of MIME, RFC 2045): the
  characters that are neither of the alphabet nor the padding are dropped, and every four
  characters give three bytes, or two or one before padding.
\<close>

fun index_of :: "'a list \<Rightarrow> 'a \<Rightarrow> nat" where
  "index_of [] c = 0"
| "index_of (x # xs) c = (if x = c then 0 else Suc (index_of xs c))"

fun base64_Decode :: "string \<Rightarrow> string" where
  "base64_Decode (c1 # c2 # c3 # c4 # rest) =
     (let v1 = index_of encodeStd c1; v2 = index_of encodeStd c2;
          v3 = index_of encodeStd c3; v4 = index_of encodeStd c4
      in if c3 = CHR ''='' then [char_of (v1 * 4 + v2 div 16)]
         else if c4 = CHR ''='' then
           [char_of (v1 * 4 + v2 div 16), char_of ((v2 mod 16) * 16 + v3 div 4)]
         else
           [char_of (v1 * 4 + v2 div 16), char_of ((v2 mod 16) * 16 + v3 div 4),
            char_of ((v3 mod 4) * 64 + v4)] @ base64_Decode rest)"
| "base64_Decode _ = []"

definition read_back :: "string \<Rightarrow> string" where
  "read_back body =
     base64_Decode (filter (\<lambda>c. c \<in> set encodeStd \<or> c = CHR ''='') body)"

text \<open>The attachments of a message: one file for every \<open>Attach\<close>, in order.\<close>

fun attachments_of :: "Message \<Rightarrow> gomail_file list" where
  "attachments_of [] = []"
| "attachments_of (Msg_Attach name settings # m) = appendFile name settings # attachments_of m"
| "attachments_of (_ # m) = attachments_of m"

subsection \<open>The outside\<close>

text \<open>
  The library functions whose results the senders use are parameters, gathered in one
  record: what they return is decided by the standard library, the provider and the network.
  An error result is \<open>Inl\<close> with the error's text. \<open>DialAndSend\<close> runs the copy
  functions of the attachments while it writes the message, so it may panic as they may.
  \<open>json_Decode\<close> decodes into the response type of the first revision, \<open>json_Decode_v\<close>
  into that of the second.

  Of \<open>strconv.Atoi\<close> the parameter \<open>Atoi_result\<close> gives the verdict only: the integer, or
  which of the two errors of the package (\<open>ErrSyntax\<close>, \<open>ErrRange\<close>) the string earns. The
  error value itself is the library's \<open>*NumError\<close> with \<open>Func = "Atoi"\<close> and \<open>Num\<close> the
  string that was given, and its text is \<open>strconv.Atoi: parsing\<close>, the quoted string, a colon
  and the text of the error. \<open>strconv.Quote\<close> is written out below; of the Unicode tables
  it reads, the part past Latin-1 is the parameter \<open>isPrint_tables\<close>.
\<close>

datatype strconv_Err = ErrSyntax | ErrRange

record NumError =
  Func :: string
  Num :: string
  Err :: strconv_Err

record world =
  Atoi_result :: "string \<Rightarrow> strconv_Err + int"
  isPrint_tables :: "nat \<Rightarrow> bool"
  DialAndSend :: "Dialer \<Rightarrow> Message \<Rightarrow> error option outcome"
  Api_CreateMessage :: "RestClient \<Rightarrow> CreateMessageParams \<Rightarrow> error option"
  json_Marshal :: "atSmsRequest \<Rightarrow> error + string"
  Values_Encode :: "(string \<rightharpoonup> string list) \<Rightarrow> string"
  http_NewRequest :: "string \<Rightarrow> string \<Rightarrow> string \<Rightarrow> error + Request"
  client_Do :: "Request \<Rightarrow> error + Response"
  json_Decode :: "Reader \<Rightarrow> error + atSmsResponse"
  json_Decode_v :: "Reader \<Rightarrow> error + atSmsResponse_v"

definition Err_Error :: "strconv_Err \<Rightarrow> string" where
  "Err_Error e = (case e of ErrSyntax \<Rightarrow> ''invalid syntax'' | ErrRange \<Rightarrow> ''value out of range'')"

definition lowerhex :: "nat \<Rightarrow> char" where
  "lowerhex d = ''0123456789abcdef'' ! d"

text \<open>
  \<open>utf8.DecodeRuneInString\<close>: the first rune of a string and its width in bytes. A string
  that does not start with a well-formed encoding gives \<open>RuneError\<close> (\<open>U+FFFD\<close>) with width
  1; the empty string gives it with width 0.
\<close>

definition continuation :: "nat \<Rightarrow> bool" where
  "continuation b = (0x80 \<le> b \<and> b \<le> 0xBF)"

definition utf8_DecodeRune :: "string \<Rightarrow> nat \<times> nat" where
  "utf8_DecodeRune s =
     (case map of_char s of
        [] \<Rightarrow> (0xFFFD, 0)
      | b0 # rest \<Rightarrow>
          if b0 < 0x80 then (b0, 1)
          else if 0xC2 \<le> b0 \<and> b0 \<le> 0xDF then
            (case rest of
               b1 # _ \<Rightarrow>
                 if continuation b1 then ((b0 mod 32) * 64 + b1 mod 64, 2) else (0xFFFD, 1)
             | _ \<Rightarrow> (0xFFFD, 1))
          else if 0xE0 \<le> b0 \<and> b0 \<le> 0xEF then
            (case rest of
               b1 # b2 # _ \<Rightarrow>
                 if (if b0 = 0xE0 then 0xA0 else 0x80) \<le> b1
                    \<and> b1 \<le> (if b0 = 0xED then 0x9F else 0xBF) \<and> continuation b2
                 then (((b0 mod 16) * 64 + b1 mod 64) * 64 + b2 mod 64, 3)
                 else (0xFFFD, 1)
             | _ \<Rightarrow> (0xFFFD, 1))
          else if 0xF0 \<le> b0 \<and> b0 \<le> 0xF4 then
            (case rest of
               b1 # b2 # b3 # _ \<Rightarrow>
                 if (if b0 = 0xF0 then 0x90 else 0x80) \<le> b1
                    \<and> b1 \<le> (if b0 = 0xF4 then 0x8F else 0xBF)
                    \<and> continuation b2 \<and> continuation b3
                 then ((((b0 mod 8) * 64 + b1 mod 64) * 64 + b2 mod 64) * 64 + b3 mod 64, 4)
                 else (0xFFFD, 1)
             | _ \<Rightarrow> (0xFFFD, 1))
          else (0xFFFD, 1))"

text \<open>\<open>utf8.AppendRune\<close>: the encoding of a rune; a surrogate or a value past \<open>U+10FFFF\<close> is
  encoded as \<open>RuneError\<close>.\<close>

definition utf8_AppendRune :: "nat \<Rightarrow> string" where
  "utf8_AppendRune r =
     (if r < 0x80 then [char_of r]
      else if r < 0x800 then [char_of (0xC0 + r div 64), char_of (0x80 + r mod 64)]
      else if (0xD800 \<le> r \<and> r \<le> 0xDFFF) \<or> 0x10FFFF < r then
        [CHR 0xEF, CHR 0xBF, CHR 0xBD]
      else if r < 0x10000 then
        [char_of (0xE0 + r div 4096), char_of (0x80 + r div 64 mod 64), char_of (0x80 + r mod 64)]
      else
        [char_of (0xF0 + r div 262144), char_of (0x80 + r div 4096 mod 64),
         char_of (0x80 + r div 64 mod 64), char_of (0x80 + r mod 64)])"

text \<open>
  \<open>strconv.IsPrint\<close>: written out for Latin-1 as the library writes it; past \<open>U+00FF\<close> it
  reads the Unicode tables of the library, the parameter \<open>isPrint_tables\<close>.
\<close>

definition strconv_IsPrint :: "world \<Rightarrow> nat \<Rightarrow> bool" where
  "strconv_IsPrint w r =
     (if r \<le> 0xFF then
        (if 0x20 \<le> r \<and> r \<le> 0x7E then True
         else if 0xA1 \<le> r \<and> r \<le> 0xFF then r \<noteq> 0xAD
         else False)
      else isPrint_tables w r)"

text \<open>
  \<open>appendEscapedRune\<close> of \<open>strconv\<close> with the double quote as the quote: how one rune is
  written inside the quotes.
\<close>

definition appendEscapedRune :: "world \<Rightarrow> nat \<Rightarrow> string" where
  "appendEscapedRune w r =
     (if r = 0x22 \<or> r = 0x5C then [CHR 0x5C, char_of r]
      else if strconv_IsPrint w r then utf8_AppendRune r
      else if r = 7 then [CHR 0x5C, CHR ''a'']
      else if r = 8 then [CHR 0x5C, CHR ''b'']
      else if r = 12 then [CHR 0x5C, CHR ''f'']
      else if r = 10 then [CHR 0x5C, CHR ''n'']
      else if r = 13 then [CHR 0x5C, CHR ''r'']
      else if r = 9 then [CHR 0x5C, CHR ''t'']
      else if r = 11 then [CHR 0x5C, CHR ''v'']
      else if r < 0x20 \<or> r = 0x7F then
        [CHR 0x5C, CHR ''x'', lowerhex (r div 16), lowerhex (r mod 16)]
      else
        (let r = (if (0xD800 \<le> r \<and> r \<le> 0xDFFF) \<or> 0x10FFFF < r then 0xFFFD else r) in
         if r < 0x10000 then
           [CHR 0x5C, CHR ''u'', lowerhex (r div 4096 mod 16), lowerhex (r div 256 mod 16),
            lowerhex (r div 16 mod 16), lowerhex (r mod 16)]
         else
           [CHR 0x5C, CHR ''U'', lowerhex (r div 268435456 mod 16),
            lowerhex (r div 16777216 mod 16), lowerhex (r div 1048576 mod 16),
            lowerhex (r div 65536 mod 16), lowerhex (r div 4096 mod 16),
            lowerhex (r div 256 mod 16), lowerhex (r div 16 mod 16), lowerhex (r mod 16)]))"

text \<open>
  The loop of \<open>strconv.Quote\<close>: rune by rune; a byte that starts no well-formed encoding is
  written \<open>\x\<close> with its two hexadecimal digits.
\<close>

function quote_runes :: "world \<Rightarrow> string \<Rightarrow> string" where
  "quote_runes w [] = []"
| "quote_runes w (c # cs) =
     (if (of_char c :: nat) < 0x80 then appendEscapedRune w (of_char c) @ quote_runes w cs
      else
        (case utf8_DecodeRune (c # cs) of
           (r, width) \<Rightarrow>
             if width = 1 \<and> r = 0xFFFD then
               [CHR 0x5C, CHR ''x'', lowerhex (of_char c div 16), lowerhex (of_char c mod 16)]
               @ quote_runes w cs
             else appendEscapedRune w r @ quote_runes w (drop (width - 1) cs)))"
  by pat_completeness auto
termination
  by (relation "measure (\<lambda>(w, s). length s)") auto

definition strconv_Quote :: "world \<Rightarrow> string \<Rightarrow> string" where
  "strconv_Quote w s = [CHR 0x22] @ quote_runes w s @ [CHR 0x22]"

definition NumError_Error :: "world \<Rightarrow> NumError \<Rightarrow> string" where
  "NumError_Error w e =
     ''strconv.'' @ Func e @ '': parsing '' @ strconv_Quote w (Num e) @ '': '' @ Err_Error (Err e)"

definition strconv_Atoi :: "world \<Rightarrow> string \<Rightarrow> NumError + int" where
  "strconv_Atoi w s =
     (case Atoi_result w s of
        Inl e \<Rightarrow> Inl \<lparr>Func = ''Atoi'', Num = s, Err = e\<rparr>
      | Inr i \<Rightarrow> Inr i)"

text \<open>The calls to the outside that a run records.\<close>

datatype smtp_event = SmtpDialAndSend Dialer Message

datatype twilio_event = TwilioCreateMessage RestClient CreateMessageParams

datatype at_event =
    ClientDo Request "error + Response"
  | BodyReadAll Reader
  | BodyDecode Reader
  | BodyClose Reader

text \<open>The names of the attachments of every message a run handed to \<open>DialAndSend\<close>.\<close>

fun sent_attachment_names :: "smtp_event list \<Rightarrow> string list list" where
  "sent_attachment_names [] = []"
| "sent_attachment_names (SmtpDialAndSend dialer m # es) =
     map file_Name (attachments_of m) # sent_attachment_names es"

subsection \<open>SendSMTPEmailMessage\<close>

text \<open>
  The loop over the attachments. Each round dereferences \<open>reader.Name\<close> and attaches a
  file under that name, with the fixed content type and a copy function that copies
  \<open>reader.Data\<close> to the writer. The module declares go 1.25, so every round has a
  \<open>reader\<close> of its own and the function of a round copies that round's data.
\<close>

fun attach_all :: "EmailAttachment list \<Rightarrow> Message \<Rightarrow> Message outcome" where
  "attach_all [] message' = Returned message'"
| "attach_all (reader # rest) message' =
     (case Name reader of
        None \<Rightarrow> Panicked
      | Some name \<Rightarrow>
          attach_all rest
            (message' @
              [Msg_Attach name
                [SetHeader [(''Content-Type'', [''application/octet-stream''])],
                 SetCopyFunc (\<lambda>w. io_Copy w (Data reader))]]))"

text \<open>
  The sender builds the message first: \<open>credentials.Sender\<close> and \<open>*receivers\<close> are
  dereferenced for the \<open>From\<close> and \<open>To\<close> headers, the subject and the body are set
  when present, the attachments are attached. Only then is the port parsed; a port that
  parses gives the dialer, and the sender returns what \<open>DialAndSend\<close> returns. The
  \<open>UseTLS\<close> branch is empty.
\<close>

definition SendSMTPEmailMessage ::
  "world \<Rightarrow> SMTPCredentials option \<Rightarrow> string option \<Rightarrow> string option \<Rightarrow> bool \<Rightarrow>
   EmailAttachment list option \<Rightarrow> string list option \<Rightarrow> error option outcome \<times> smtp_event list"
where
  "SendSMTPEmailMessage w credentials subject message isHtml attachments receivers =
     (case credentials of
        None \<Rightarrow> (Panicked, [])
      | Some cred \<Rightarrow>
     (case receivers of
        None \<Rightarrow> (Panicked, [])
      | Some rcvs \<Rightarrow>
          let m1 = [Msg_SetHeader ''From'' [Sender cred], Msg_SetHeader ''To'' rcvs];
              m2 = (case subject of None \<Rightarrow> m1 | Some s \<Rightarrow> m1 @ [Msg_SetHeader ''Subject'' [s]]);
              mimeType = (if isHtml then ''text/html'' else ''text/plain'');
              m3 = (case message of None \<Rightarrow> m2 | Some b \<Rightarrow> m2 @ [Msg_SetBody mimeType b])
          in
          (case (case attachments of None \<Rightarrow> Returned m3 | Some atts \<Rightarrow> attach_all atts m3) of
             Panicked \<Rightarrow> (Panicked, [])
           | Returned message' \<Rightarrow>
          (case strconv_Atoi w (Port cred) of
             Inl err \<Rightarrow>
               (Returned (Some (''Invalid port number: '' @ NumError_Error w err)), [])
           | Inr port \<Rightarrow>
               let dialer = NewDialer (Host cred) port (User cred) (Password cred)
               in (DialAndSend w dialer message',
                   [SmtpDialAndSend dialer message'])))))"

subsection \<open>SendTwilioSmsMessage\<close>

text \<open>
  The client is made from the credentials first (a constructor of the library: it makes
  no request), then the message is checked, then the parameters are set (\<open>*receiver\<close> is
  dereferenced for \<open>SetTo\<close>), then the message is created and its error returned.
\<close>

definition SendTwilioSmsMessage ::
  "world \<Rightarrow> TwilioCredentials option \<Rightarrow> string option \<Rightarrow> string option \<Rightarrow>
   error option outcome \<times> twilio_event list"
where
  "SendTwilioSmsMessage w credentials message receiver =
     (case credentials of
        None \<Rightarrow> (Panicked, [])
      | Some cred \<Rightarrow>
          let client = NewRestClientWithParams
                         \<lparr>cp_Username = AccountSID cred, cp_Password = AuthToken cred\<rparr>
          in
          (case message of
             None \<Rightarrow> (Returned (Some ''Message body and receivers cannot be empty''), [])
           | Some msg \<Rightarrow>
               let params = empty_CreateMessageParams\<lparr>p_Body := Some msg\<rparr>;
                   params = params\<lparr>p_From := Some (SenderPhoneNumber cred)\<rparr>
               in
               (case receiver of
                  None \<Rightarrow> (Panicked, [])
                | Some rcv \<Rightarrow>
                    let params = params\<lparr>p_To := Some rcv\<rparr>
                    in (Returned (Api_CreateMessage w client params),
                        [TwilioCreateMessage client params]))))"

subsection \<open>SendAfricasTalkingSmsMessage\<close>

text \<open>
  The first revision (\<^verbatim>\<open>MessagingUtilities.go\<close>): a JSON payload, and the status text of
  the response searched for the cost marker. \<open>defer resp.Body.Close()\<close> runs when the
  function returns, so the close is the last call of every run that has a response.
\<close>

definition SendAfricasTalkingSmsMessage ::
  "world \<Rightarrow> AfricasTalkingCredentials option \<Rightarrow> string option \<Rightarrow> string option \<Rightarrow>
   error option outcome \<times> at_event list"
where
  "SendAfricasTalkingSmsMessage w credentials message receiver =
     (case message of
        None \<Rightarrow> (Returned (Some ''Message body cannot be empty''), [])
      | Some msg \<Rightarrow>
     (case credentials of
        None \<Rightarrow> (Panicked, [])
      | Some cred \<Rightarrow>
     (case receiver of
        None \<Rightarrow> (Panicked, [])
      | Some rcv \<Rightarrow>
          let baseURL = ''https://api.africastalking.com'';
              url = baseURL @ ''/version1/messaging'';
              payload = \<lparr>req_Username = Username cred, req_To = rcv,
                         req_Message = msg, req_From = SenderID cred\<rparr>
          in
          (case json_Marshal w payload of
             Inl err \<Rightarrow> (Returned (Some (''Failed to marshal JSON payload: '' @ err)), [])
           | Inr jsonPayload \<Rightarrow>
          (case http_NewRequest w ''POST'' url jsonPayload of
             Inl err \<Rightarrow> (Returned (Some (''Failed to create http request: '' @ err)), [])
           | Inr request0 \<Rightarrow>
               let request = Header_Set ''Content-Type'' ''application/json'' request0;
                   request = Header_Set ''Accept'' ''application/json'' request;
                   request = Header_Set ''apiKey'' (ApiKey cred) request
               in
               (case client_Do w request of
                  Inl err \<Rightarrow>
                    (Returned (Some (''Failed to execute http request: '' @ err)),
                     [ClientDo request (Inl err)])
                | Inr resp \<Rightarrow>
                    (if StatusCode resp \<noteq> 201 \<and> StatusCode resp \<noteq> 200 then
                       (case io_ReadAll (Body resp) of
                          (bodyBytes, _) \<Rightarrow>
                            (Returned (Some (''Africa's talking API failed with status '' @
                                fmt_d (StatusCode resp) @ ''. Response body: '' @ bodyBytes)),
                             [ClientDo request (Inr resp), BodyReadAll (Body resp),
                              BodyClose (Body resp)]))
                     else
                       (case json_Decode w (Body resp) of
                          Inl err \<Rightarrow>
                            (Returned (Some
                               (''Successfully sent, but failed to parse response: '' @ err)),
                             [ClientDo request (Inr resp), BodyDecode (Body resp),
                              BodyClose (Body resp)])
                        | Inr atResp \<Rightarrow>
                            (if strings_Contains (Message (SMSMessageData atResp))
                                  ''Total Cost: KES 0.00''
                             then
                               (Returned (Some
                                  (''africa's talking send likely failed. Check API key/username. Response: '' @
                                   Message (SMSMessageData atResp))),
                                [ClientDo request (Inr resp), BodyDecode (Body resp),
                                 BodyClose (Body resp)])
                             else
                               (Returned None,
                                [ClientDo request (Inr resp), BodyDecode (Body resp),
                                 BodyClose (Body resp)]))))))))))"

text \<open>
  The second revision (the unnamed file): a receiver with a comma is refused, the payload is
  a form (\<open>url.Values\<close>, encoded by the library), and the response is judged by its list of
  recipients: there must be exactly one, and \<open>strings.Compare("", status) != 0\<close>, that is
  a status that is not empty, fails the send. The status text is not looked at.
\<close>

definition Values_Set :: "string \<Rightarrow> string \<Rightarrow> (string \<rightharpoonup> string list) \<Rightarrow> (string \<rightharpoonup> string list)" where
  "Values_Set k v vs = vs(k \<mapsto> [v])"

definition SendAfricasTalkingSmsMessage_variant ::
  "world \<Rightarrow> AfricasTalkingCredentials option \<Rightarrow> string option \<Rightarrow> string option \<Rightarrow>
   error option outcome \<times> at_event list"
where
  "SendAfricasTalkingSmsMessage_variant w credentials message receiver =
     (case message of
        None \<Rightarrow> (Returned (Some ''Message body cannot be empty''), [])
      | Some msg \<Rightarrow>
     (case receiver of
        None \<Rightarrow> (Panicked, [])
      | Some rcv \<Rightarrow>
          if strings_Contains rcv '','' then
            (Returned (Some ''Multiple receivers may hav been passed''), [])
          else
     (case credentials of
        None \<Rightarrow> (Panicked, [])
      | Some cred \<Rightarrow>
          let baseURL = ''https://api.africastalking.com/version1/messaging'';
              payload = Map.empty;
              payload = Values_Set ''username'' (Username cred) payload;
              payload = Values_Set ''to'' rcv payload;
              payload = Values_Set ''from'' (SenderID cred) payload;
              payload = Values_Set ''message'' msg payload
          in
          (case http_NewRequest w ''POST'' baseURL (Values_Encode w payload) of
             Inl err \<Rightarrow> (Returned (Some (''Failed to create http request: '' @ err)), [])
           | Inr request0 \<Rightarrow>
               let request = Header_Set ''Content-Type'' ''application/x-www-form-urlencoded'' request0;
                   request = Header_Set ''Accept'' ''application/json'' request;
                   request = Header_Set ''apiKey'' (ApiKey cred) request
               in
               (case client_Do w request of
                  Inl err \<Rightarrow>
                    (Returned (Some (''Failed to execute http request: '' @ err)),
                     [ClientDo request (Inl err)])
                | Inr resp \<Rightarrow>
                    (if StatusCode resp \<noteq> 201 \<and> StatusCode resp \<noteq> 200 then
                       (case io_ReadAll (Body resp) of
                          (bodyBytes, _) \<Rightarrow>
                            (Returned (Some (''Africa's talking API failed with status '' @
                                fmt_d (StatusCode resp) @ ''. Response body: '' @ bodyBytes)),
                             [ClientDo request (Inr resp), BodyReadAll (Body resp),
                              BodyClose (Body resp)]))
                     else
                       (case json_Decode_v w (Body resp) of
                          Inl err \<Rightarrow>
                            (Returned (Some
                               (''Successfully sent, but failed to parse response: '' @ err)),
                             [ClientDo request (Inr resp), BodyDecode (Body resp),
                              BodyClose (Body resp)])
                        | Inr atResp \<Rightarrow>
                            (if length (Recipients (SMSMessageData_v atResp)) \<noteq> 1 then
                               (Returned (Some ''Sent recipient list is empty.''),
                                [ClientDo request (Inr resp), BodyDecode (Body resp),
                                 BodyClose (Body resp)])
                             else if list_ex (\<lambda>atResp'. status atResp' \<noteq> [])
                                       (Recipients (SMSMessageData_v atResp)) then
                               (Returned (Some ''Message could not be sent''),
                                [ClientDo request (Inr resp), BodyDecode (Body resp),
                                 BodyClose (Body resp)])
                             else
                               (Returned None,
                                [ClientDo request (Inr resp), BodyDecode (Body resp),
                                 BodyClose (Body resp)])))))))))"

subsection \<open>Stand-ins for the outside\<close>

text \<open>
  Concrete worlds, to run the senders on concrete inputs. In \<open>demo_world code body\<close> every
  request is answered with status \<open>code\<close> and body \<open>body\<close>, and the SMTP dialer and the
  Twilio client succeed. The decoder of the first revision accepts the documents
  \<^verbatim>\<open>{"SMSMessageData":{"Message":"..."}}\<close> whose text is of plain bytes. The decoder of
  the second revision accepts these too, with no recipient, and the same documents with
  \<^verbatim>\<open>"Recipients":[]\<close> (no recipient) or \<^verbatim>\<open>"Recipients":[{}]\<close> (one recipient, whose
  status is empty) after the text. The integer parser is exact on strings of at most nine
  bytes after an optional sign: digits parse, anything else is a syntax error; longer strings
  it takes as out of range. These functions stand in for the libraries on the inputs of the
  witnesses; the theorems below hold for every world.
\<close>

fun strip_prefix :: "string \<Rightarrow> string \<Rightarrow> string option" where
  "strip_prefix [] s = Some s"
| "strip_prefix (p # ps) [] = None"
| "strip_prefix (p # ps) (c # cs) = (if p = c then strip_prefix ps cs else None)"

definition strip_suffix :: "string \<Rightarrow> string \<Rightarrow> string option" where
  "strip_suffix suffix s = map_option rev (strip_prefix (rev suffix) (rev s))"

definition demo_Decode :: "Reader \<Rightarrow> error + atSmsResponse" where
  \<open>demo_Decode r =
     (case strip_prefix ''{"SMSMessageData":{"Message":"'' (content r) of
        None \<Rightarrow> Inl ''invalid character looking for beginning of value''
      | Some rest \<Rightarrow>
          (case strip_suffix ''"}}'' rest of
             None \<Rightarrow> Inl ''unexpected EOF''
           | Some m \<Rightarrow>
               if list_all plain_char m
               then Inr \<lparr>SMSMessageData = \<lparr>Message = m\<rparr>\<rparr>
               else Inl ''invalid character in string literal''))\<close>

definition demo_Decode_v :: "Reader \<Rightarrow> error + atSmsResponse_v" where
  \<open>demo_Decode_v r =
     (case strip_prefix ''{"SMSMessageData":{"Message":"'' (content r) of
        None \<Rightarrow> Inl ''invalid character looking for beginning of value''
      | Some rest \<Rightarrow>
          (case (strip_suffix ''","Recipients":[{}]}}'' rest,
                 strip_suffix ''","Recipients":[]}}'' rest,
                 strip_suffix ''"}}'' rest) of
             (Some m, _, _) \<Rightarrow>
               if list_all plain_char m
               then Inr \<lparr>SMSMessageData_v = \<lparr>Message_v = m, Recipients = [\<lparr>status = []\<rparr>]\<rparr>\<rparr>
               else Inl ''invalid character in string literal''
           | (None, Some m, _) \<Rightarrow>
               if list_all plain_char m
               then Inr \<lparr>SMSMessageData_v = \<lparr>Message_v = m, Recipients = []\<rparr>\<rparr>
               else Inl ''invalid character in string literal''
           | (None, None, Some m) \<Rightarrow>
               if list_all plain_char m
               then Inr \<lparr>SMSMessageData_v = \<lparr>Message_v = m, Recipients = []\<rparr>\<rparr>
               else Inl ''invalid character in string literal''
           | (None, None, None) \<Rightarrow> Inl ''unexpected EOF''))\<close>

definition is_digit :: "char \<Rightarrow> bool" where
  "is_digit c = (48 \<le> (of_char c :: nat) \<and> (of_char c :: nat) \<le> 57)"

definition demo_Atoi_result :: "string \<Rightarrow> strconv_Err + int" where
  "demo_Atoi_result s =
     (let neg = (s \<noteq> [] \<and> hd s = CHR ''-'');
          ds = (if s \<noteq> [] \<and> (hd s = CHR ''-'' \<or> hd s = CHR ''+'') then tl s else s);
          n = int (fold (\<lambda>c n. 10 * n + (of_char c - 48)) ds 0)
      in if 9 < length ds then Inl ErrRange
         else if ds = [] \<or> \<not> list_all is_digit ds then Inl ErrSyntax
         else Inr (if neg then - n else n))"

definition demo_world :: "int \<Rightarrow> string \<Rightarrow> world" where
  "demo_world code body =
     \<lparr>Atoi_result = demo_Atoi_result,
      isPrint_tables = (\<lambda>r. True),
      DialAndSend = (\<lambda>dialer m. Returned None),
      Api_CreateMessage = (\<lambda>client params. None),
      json_Marshal = (\<lambda>payload. Inr (req_Message payload)),
      Values_Encode = (\<lambda>payload. []),
      http_NewRequest =
        (\<lambda>method url body. Inr \<lparr>Method = method, URL = url, ReqBody = body, Header = Map.empty\<rparr>),
      client_Do = (\<lambda>request. Inr \<lparr>StatusCode = code, Body = Reader body None\<rparr>),
      json_Decode = demo_Decode,
      json_Decode_v = demo_Decode_v\<rparr>"

definition demo_at_credentials :: AfricasTalkingCredentials where
  "demo_at_credentials = \<lparr>ApiKey = ''k3y'', Username = ''sandbox'', SenderID = ''SHOP''\<rparr>"

definition demo_twilio_credentials :: TwilioCredentials where
  "demo_twilio_credentials =
     \<lparr>AccountSID = ''AC01'', AuthToken = ''t0ken'', SenderPhoneNumber = ''+15005550006'',
      SenderName = ''Shop''\<rparr>"

definition demo_smtp_credentials :: "string \<Rightarrow> SMTPCredentials" where
  "demo_smtp_credentials port =
     \<lparr>Host = ''smtp.example.org'', Port = port, User = ''mailer'',
      Sender = ''mailer@example.org'', Password = ''secret'', UseTLS = False\<rparr>"

text \<open>The request the first revision builds in a demo world for the message \<open>msg\<close>.\<close>

definition demo_request :: "string \<Rightarrow> Request" where
  "demo_request msg =
     Header_Set ''apiKey'' ''k3y''
       (Header_Set ''Accept'' ''application/json''
         (Header_Set ''Content-Type'' ''application/json''
           \<lparr>Method = ''POST'', URL = ''https://api.africastalking.com/version1/messaging'',
            ReqBody = msg, Header = Map.empty\<rparr>))"

text \<open>The request the second revision builds in a demo world.\<close>

definition demo_request_v :: Request where
  "demo_request_v =
     Header_Set ''apiKey'' ''k3y''
       (Header_Set ''Accept'' ''application/json''
         (Header_Set ''Content-Type'' ''application/x-www-form-urlencoded''
           \<lparr>Method = ''POST'', URL = ''https://api.africastalking.com/version1/messaging'',
            ReqBody = [], Header = Map.empty\<rparr>))"

section \<open>Properties\<close>

subsection \<open>What \<open>strings.Contains\<close> means\<close>

lemma strings_HasPrefix_iff: "strings_HasPrefix s p \<longleftrightarrow> (\<exists>q. s = p @ q)"
  by (induction s p rule: strings_HasPrefix.induct) auto

lemma strings_Contains_iff: "strings_Contains s t \<longleftrightarrow> (\<exists>p q. s = p @ t @ q)"
proof (induction s)
  case Nil
  then show ?case by auto
next
  case (Cons c cs)
  show ?case
  proof
    assume "strings_Contains (c # cs) t"
    then consider "strings_HasPrefix (c # cs) t" | "strings_Contains cs t" by auto
    then show "\<exists>p q. c # cs = p @ t @ q"
    proof cases
      case 1
      then obtain q where "c # cs = t @ q" by (auto simp: strings_HasPrefix_iff)
      then have "c # cs = [] @ t @ q" by simp
      then show ?thesis by blast
    next
      case 2
      then obtain p q where "cs = p @ t @ q" using Cons.IH by auto
      then have "c # cs = (c # p) @ t @ q" by simp
      then show ?thesis by blast
    qed
  next
    assume "\<exists>p q. c # cs = p @ t @ q"
    then obtain p q where pq: "c # cs = p @ t @ q" by blast
    show "strings_Contains (c # cs) t"
    proof (cases p)
      case Nil
      with pq have "strings_HasPrefix (c # cs) t" by (auto simp: strings_HasPrefix_iff)
      then show ?thesis by simp
    next
      case (Cons a p')
      with pq have "cs = p' @ t @ q" by simp
      then have "strings_Contains cs t" using Cons.IH by blast
      then show ?thesis by simp
    qed
  qed
qed

lemma strings_Contains_append: "strings_Contains (a @ t @ b) t"
  by (auto simp: strings_Contains_iff)

lemma strings_Contains_suffix: "strings_Contains (a @ t) t"
  using strings_Contains_append [of a t "[]"] by simp

lemma strings_Contains_char: "strings_Contains s [c] \<longleftrightarrow> c \<in> set s"
  by (induction s) auto

subsection \<open>A run of the Africa's Talking sender that got a response\<close>

text \<open>
  Once \<open>client.Do\<close> has returned a response, the outcome and the calls of the run are
  decided by the status code and by what the decoder makes of the body. A run whose trace
  holds a response is such a run, whatever the arguments were.
\<close>

lemma at_response_run:
  assumes run: "SendAfricasTalkingSmsMessage w credentials message receiver = (out, tr)"
    and resp: "ClientDo req (Inr resp) \<in> set tr"
  shows "(out, tr) =
    (if StatusCode resp \<noteq> 201 \<and> StatusCode resp \<noteq> 200 then
       (Returned (Some (''Africa's talking API failed with status '' @
            fmt_d (StatusCode resp) @ ''. Response body: '' @ content (Body resp))),
        [ClientDo req (Inr resp), BodyReadAll (Body resp), BodyClose (Body resp)])
     else
       (case json_Decode w (Body resp) of
          Inl err \<Rightarrow>
            (Returned (Some (''Successfully sent, but failed to parse response: '' @ err)),
             [ClientDo req (Inr resp), BodyDecode (Body resp), BodyClose (Body resp)])
        | Inr atResp \<Rightarrow>
            (if strings_Contains (Message (SMSMessageData atResp)) ''Total Cost: KES 0.00''
             then Returned (Some
                  (''africa's talking send likely failed. Check API key/username. Response: '' @
                   Message (SMSMessageData atResp)))
             else Returned None,
             [ClientDo req (Inr resp), BodyDecode (Body resp), BodyClose (Body resp)])))"
proof (cases message)
  case None
  with run[symmetric] resp show ?thesis by (simp add: SendAfricasTalkingSmsMessage_def)
next
  case msg: (Some msg)
  show ?thesis
  proof (cases credentials)
    case None
    with run[symmetric] resp msg show ?thesis by (simp add: SendAfricasTalkingSmsMessage_def)
  next
    case cred: (Some cred)
    show ?thesis
    proof (cases receiver)
      case None
      with run[symmetric] resp msg cred show ?thesis by (simp add: SendAfricasTalkingSmsMessage_def)
    next
      case rcv: (Some rcv)
      show ?thesis
      proof (cases "json_Marshal w \<lparr>req_Username = Username cred, req_To = rcv,
                         req_Message = msg, req_From = SenderID cred\<rparr>")
        case (Inl e)
        with run[symmetric] resp msg cred rcv show ?thesis
          by (simp add: SendAfricasTalkingSmsMessage_def)
      next
        case js: (Inr jsonPayload)
        show ?thesis
        proof (cases "http_NewRequest w ''POST'' (''https://api.africastalking.com'' @ ''/version1/messaging'') jsonPayload")
          case (Inl e)
          with run[symmetric] resp msg cred rcv js show ?thesis
            by (simp add: SendAfricasTalkingSmsMessage_def)
        next
          case rq: (Inr request0)
          define request where "request = Header_Set ''apiKey'' (ApiKey cred)
            (Header_Set ''Accept'' ''application/json'' (Header_Set ''Content-Type'' ''application/json'' request0))"
          show ?thesis
          proof (cases "client_Do w request")
            case (Inl e)
            with run[symmetric] resp msg cred rcv js rq show ?thesis
              by (simp add: SendAfricasTalkingSmsMessage_def request_def Let_def)
          next
            case (Inr resp')
            with run[symmetric] resp msg cred rcv js rq show ?thesis
              by (auto simp add: SendAfricasTalkingSmsMessage_def request_def io_ReadAll_def Let_def
                     split: if_splits sum.splits)
          qed
        qed
      qed
    qed
  qed
qed


lemma variant_response_run:
  assumes run: "SendAfricasTalkingSmsMessage_variant w credentials message receiver = (out, tr)"
    and resp: "ClientDo req (Inr resp) \<in> set tr"
  shows "(out, tr) =
    (if StatusCode resp \<noteq> 201 \<and> StatusCode resp \<noteq> 200 then
       (Returned (Some (''Africa's talking API failed with status '' @
            fmt_d (StatusCode resp) @ ''. Response body: '' @ content (Body resp))),
        [ClientDo req (Inr resp), BodyReadAll (Body resp), BodyClose (Body resp)])
     else
       (case json_Decode_v w (Body resp) of
          Inl err \<Rightarrow>
            (Returned (Some (''Successfully sent, but failed to parse response: '' @ err)),
             [ClientDo req (Inr resp), BodyDecode (Body resp), BodyClose (Body resp)])
        | Inr atResp \<Rightarrow>
            (if length (Recipients (SMSMessageData_v atResp)) \<noteq> 1
             then Returned (Some ''Sent recipient list is empty.'')
             else if list_ex (\<lambda>r. status r \<noteq> []) (Recipients (SMSMessageData_v atResp))
             then Returned (Some ''Message could not be sent'')
             else Returned None,
             [ClientDo req (Inr resp), BodyDecode (Body resp), BodyClose (Body resp)])))"
proof (cases message)
  case None
  with run[symmetric] resp show ?thesis
    by (simp add: SendAfricasTalkingSmsMessage_variant_def)
next
  case msg: (Some msg)
  show ?thesis
  proof (cases receiver)
    case None
    with run[symmetric] resp msg show ?thesis
      by (simp add: SendAfricasTalkingSmsMessage_variant_def)
  next
    case rcv: (Some rcv)
    show ?thesis
    proof (cases "strings_Contains rcv '',''")
      case True
      with run[symmetric] resp msg rcv show ?thesis
        by (simp add: SendAfricasTalkingSmsMessage_variant_def)
    next
      case comma: False
      show ?thesis
      proof (cases credentials)
        case None
        with run[symmetric] resp msg rcv comma show ?thesis
          by (simp add: SendAfricasTalkingSmsMessage_variant_def)
      next
        case cred: (Some cred)
        define payload where "payload =
          Values_Set ''message'' msg (Values_Set ''from'' (SenderID cred)
            (Values_Set ''to'' rcv (Values_Set ''username'' (Username cred) Map.empty)))"
        show ?thesis
        proof (cases "http_NewRequest w ''POST''
            ''https://api.africastalking.com/version1/messaging'' (Values_Encode w payload)")
          case (Inl e)
          with run[symmetric] resp msg rcv comma cred show ?thesis
            by (simp add: SendAfricasTalkingSmsMessage_variant_def payload_def Let_def)
        next
          case rq: (Inr request0)
          define request where "request = Header_Set ''apiKey'' (ApiKey cred)
            (Header_Set ''Accept'' ''application/json''
              (Header_Set ''Content-Type'' ''application/x-www-form-urlencoded'' request0))"
          show ?thesis
          proof (cases "client_Do w request")
            case (Inl e)
            with run[symmetric] resp msg rcv comma cred rq show ?thesis
              by (simp add: SendAfricasTalkingSmsMessage_variant_def payload_def request_def
                    Let_def)
          next
            case (Inr resp')
            with run[symmetric] resp msg rcv comma cred rq show ?thesis
              by (auto simp add: SendAfricasTalkingSmsMessage_variant_def payload_def
                    request_def io_ReadAll_def Let_def split: if_splits sum.splits)
          qed
        qed
      qed
    qed
  qed
qed

subsection \<open>Runs in the demo worlds\<close>

lemma demo_run:
  "SendAfricasTalkingSmsMessage (demo_world code body) (Some demo_at_credentials)
       (Some msg) (Some rcv) =
   (if code \<noteq> 201 \<and> code \<noteq> 200 then
      (Returned (Some (''Africa's talking API failed with status '' @
            fmt_d code @ ''. Response body: '' @ body)),
       [ClientDo (demo_request msg) (Inr \<lparr>StatusCode = code, Body = Reader body None\<rparr>),
        BodyReadAll (Reader body None), BodyClose (Reader body None)])
    else
      (case demo_Decode (Reader body None) of
         Inl err \<Rightarrow>
           (Returned (Some (''Successfully sent, but failed to parse response: '' @ err)),
            [ClientDo (demo_request msg) (Inr \<lparr>StatusCode = code, Body = Reader body None\<rparr>),
             BodyDecode (Reader body None), BodyClose (Reader body None)])
       | Inr atResp \<Rightarrow>
           (if strings_Contains (Message (SMSMessageData atResp)) ''Total Cost: KES 0.00''
            then Returned (Some
                 (''africa's talking send likely failed. Check API key/username. Response: '' @
                  Message (SMSMessageData atResp)))
            else Returned None,
            [ClientDo (demo_request msg) (Inr \<lparr>StatusCode = code, Body = Reader body None\<rparr>),
             BodyDecode (Reader body None), BodyClose (Reader body None)])))"
  by (simp add: SendAfricasTalkingSmsMessage_def demo_world_def demo_at_credentials_def
        demo_request_def io_ReadAll_def Let_def split: sum.splits)

lemma demo_Decode_150:
  \<open>demo_Decode (Reader ''{"SMSMessageData":{"Message":"Sent to 1/1 Total Cost: KES 1.50"}}'' None)
     = Inr \<lparr>SMSMessageData = \<lparr>Message = ''Sent to 1/1 Total Cost: KES 1.50''\<rparr>\<rparr>\<close>
  by (simp add: demo_Decode_def strip_suffix_def plain_char_def)

lemma demo_Decode_000:
  \<open>demo_Decode (Reader ''{"SMSMessageData":{"Message":"Sent to 1/1 Total Cost: KES 0.00"}}'' None)
     = Inr \<lparr>SMSMessageData = \<lparr>Message = ''Sent to 1/1 Total Cost: KES 0.00''\<rparr>\<rparr>\<close>
  by (simp add: demo_Decode_def strip_suffix_def plain_char_def)



subsection \<open>The claims\<close>









text \<open>
  The second revision does not read the status text of a decoded response: the outcome is
  decided by the list of recipients alone.
\<close>

lemma variant_judges_recipients:
  assumes run: "SendAfricasTalkingSmsMessage_variant w credentials message receiver = (out, tr)"
    and resp: "ClientDo req (Inr resp) \<in> set tr"
    and status: "StatusCode resp = 200 \<or> StatusCode resp = 201"
    and dec: "json_Decode_v w (Body resp) = Inr atResp"
  shows "out =
    (if length (Recipients (SMSMessageData_v atResp)) \<noteq> 1
     then Returned (Some ''Sent recipient list is empty.'')
     else if list_ex (\<lambda>r. status r \<noteq> []) (Recipients (SMSMessageData_v atResp))
     then Returned (Some ''Message could not be sent'')
     else Returned None)"
proof -
  from status have ok: "\<not> (StatusCode resp \<noteq> 201 \<and> StatusCode resp \<noteq> 200)" by auto
  from variant_response_run [OF run resp] ok dec show ?thesis by simp
qed

text \<open>
  C2, as the claim states it, fails for the Twilio sender: it makes the client from
  \<open>credentials.AccountSID\<close> and \<open>credentials.AuthToken\<close> before it looks at the message,
  so with a \<open>nil\<close> credentials pointer and a \<open>nil\<close> message it panics and returns no error.
\<close>

theorem twilio_nil_credentials_counterexample:
  "SendTwilioSmsMessage (demo_world 200 []) None None (Some ''+15005550001'') = (Panicked, [])"
  by (simp add: SendTwilioSmsMessage_def)

text \<open>
  C2, amended. With the message body absent: the Twilio sender whose credentials pointer is
  not \<open>nil\<close> returns the validation error \<open>Message body and receivers cannot be empty\<close>
  and calls nothing; whatever its credentials, it calls nothing. The Africa's Talking sender,
  in both revisions, returns the validation error \<open>Message body cannot be empty\<close> and calls
  nothing, for every credentials pointer and every receiver.
\<close>

theorem absent_body_is_validation_error:
  "SendTwilioSmsMessage w (Some cred) None receiver
     = (Returned (Some ''Message body and receivers cannot be empty''), [])
   \<and> snd (SendTwilioSmsMessage w credentials None receiver) = []
   \<and> SendAfricasTalkingSmsMessage w at_credentials None receiver
     = (Returned (Some ''Message body cannot be empty''), [])
   \<and> SendAfricasTalkingSmsMessage_variant w at_credentials None receiver
     = (Returned (Some ''Message body cannot be empty''), [])"
  by (simp add: SendTwilioSmsMessage_def SendAfricasTalkingSmsMessage_def
        SendAfricasTalkingSmsMessage_variant_def split: option.splits)

theorem absent_body_is_validation_error_witness:
  "SendTwilioSmsMessage (demo_world 200 []) (Some demo_twilio_credentials) None None
     = (Returned (Some ''Message body and receivers cannot be empty''), [])
   \<and> SendAfricasTalkingSmsMessage (demo_world 200 []) None None None
     = (Returned (Some ''Message body cannot be empty''), [])"
  using absent_body_is_validation_error
    [of "demo_world 200 []" demo_twilio_credentials None None None]
  by simp

text \<open>
  C3. With the message body present and the receiver pointer \<open>nil\<close>, neither sender returns
  a validation error: the Twilio sender panics at \<open>params.SetTo(*receiver)\<close>, the
  Africa's Talking sender at \<open>To: *receiver\<close>. No call to the provider was made by then.
\<close>

theorem nil_receiver_panics:
  "SendTwilioSmsMessage (demo_world 201 []) (Some demo_twilio_credentials) (Some ''hello'') None
     = (Panicked, [])
   \<and> SendAfricasTalkingSmsMessage (demo_world 201 []) (Some demo_at_credentials)
       (Some ''hello'') None
     = (Panicked, [])"
  by (simp add: SendTwilioSmsMessage_def SendAfricasTalkingSmsMessage_def Let_def)

text \<open>
  C10. Second revision of the Africa's Talking sender, message body present, a receiver
  string with a comma in it: the sender returns the error
  \<open>Multiple receivers may hav been passed\<close> and calls nothing, whatever the credentials.
\<close>

theorem variant_comma_receiver_rejected:
  assumes "CHR '','' \<in> set rcv"
  shows "SendAfricasTalkingSmsMessage_variant w credentials (Some msg) (Some rcv)
     = (Returned (Some ''Multiple receivers may hav been passed''), [])"
proof -
  from assms have "strings_Contains rcv '',''" by (simp add: strings_Contains_char)
  then show ?thesis by (simp add: SendAfricasTalkingSmsMessage_variant_def)
qed

theorem variant_comma_receiver_rejected_witness:
  "CHR '','' \<in> set ''+254700000001,+254700000002''
   \<and> SendAfricasTalkingSmsMessage_variant (demo_world 201 []) (Some demo_at_credentials)
        (Some ''hello'') (Some ''+254700000001,+254700000002'')
     = (Returned (Some ''Multiple receivers may hav been passed''), [])"
proof -
  have c: "CHR '','' \<in> set ''+254700000001,+254700000002''" by simp
  from variant_comma_receiver_rejected [OF c] c show ?thesis by simp
qed

subsection \<open>The SMTP sender\<close>

text \<open>
  The loop over the attachments ends without a panic exactly when every attachment has a
  name, and it only appends to the message. With credentials and receivers present and
  every attachment named, the sender gets to the port: it returns the port error, or hands
  the message, which holds the \<open>To\<close> header as given, to \<open>DialAndSend\<close>. Otherwise it
  panics before the port is parsed.
\<close>

lemma attach_all_Returned_iff:
  "(\<exists>m'. attach_all atts m = Returned m') \<longleftrightarrow> (\<forall>a \<in> set atts. Name a \<noteq> None)"
  by (induction atts arbitrary: m) (auto split: option.splits)

lemma attach_all_extends: "attach_all atts m = Returned m' \<Longrightarrow> \<exists>ext. m' = m @ ext"
proof (induction atts arbitrary: m)
  case Nil
  then show ?case by simp
next
  case (Cons a atts)
  then show ?case by (fastforce split: option.splits)
qed

lemma smtp_run:
  assumes names: "\<forall>atts. attachments = Some atts \<longrightarrow> (\<forall>a \<in> set atts. Name a \<noteq> None)"
  shows "\<exists>m. Msg_SetHeader ''To'' rcvs \<in> set m \<and>
     SendSMTPEmailMessage w (Some cred) subject message isHtml attachments (Some rcvs) =
       (case strconv_Atoi w (Port cred) of
          Inl err \<Rightarrow> (Returned (Some (''Invalid port number: '' @ NumError_Error w err)), [])
        | Inr port \<Rightarrow>
            (DialAndSend w (NewDialer (Host cred) port (User cred) (Password cred)) m,
             [SmtpDialAndSend (NewDialer (Host cred) port (User cred) (Password cred)) m]))"
proof -
  define m3 where "m3 =
    (case message of
       None \<Rightarrow> (case subject of
                  None \<Rightarrow> [Msg_SetHeader ''From'' [Sender cred], Msg_SetHeader ''To'' rcvs]
                | Some s \<Rightarrow> [Msg_SetHeader ''From'' [Sender cred], Msg_SetHeader ''To'' rcvs]
                            @ [Msg_SetHeader ''Subject'' [s]])
     | Some b \<Rightarrow> (case subject of
                  None \<Rightarrow> [Msg_SetHeader ''From'' [Sender cred], Msg_SetHeader ''To'' rcvs]
                | Some s \<Rightarrow> [Msg_SetHeader ''From'' [Sender cred], Msg_SetHeader ''To'' rcvs]
                            @ [Msg_SetHeader ''Subject'' [s]])
                 @ [Msg_SetBody (if isHtml then ''text/html'' else ''text/plain'') b])"
  have to: "Msg_SetHeader ''To'' rcvs \<in> set m3"
    by (simp add: m3_def split: option.splits)
  have run: "SendSMTPEmailMessage w (Some cred) subject message isHtml attachments (Some rcvs) =
     (case (case attachments of None \<Rightarrow> Returned m3 | Some atts \<Rightarrow> attach_all atts m3) of
             Panicked \<Rightarrow> (Panicked, [])
           | Returned message' \<Rightarrow>
          (case strconv_Atoi w (Port cred) of
             Inl err \<Rightarrow> (Returned (Some (''Invalid port number: '' @ NumError_Error w err)), [])
           | Inr port \<Rightarrow>
               (DialAndSend w (NewDialer (Host cred) port (User cred) (Password cred)) message',
                   [SmtpDialAndSend (NewDialer (Host cred) port (User cred) (Password cred)) message'])))"
    by (simp add: SendSMTPEmailMessage_def m3_def Let_def
          split: option.splits sum.splits outcome.splits)
  show ?thesis
  proof (cases attachments)
    case None
    with run have "SendSMTPEmailMessage w (Some cred) subject message isHtml attachments (Some rcvs) =
       (case strconv_Atoi w (Port cred) of
          Inl err \<Rightarrow> (Returned (Some (''Invalid port number: '' @ NumError_Error w err)), [])
        | Inr port \<Rightarrow>
            (DialAndSend w (NewDialer (Host cred) port (User cred) (Password cred)) m3,
             [SmtpDialAndSend (NewDialer (Host cred) port (User cred) (Password cred)) m3]))"
      by simp
    with to show ?thesis by (intro exI [of _ m3] conjI)
  next
    case (Some atts)
    with names have "\<forall>a \<in> set atts. Name a \<noteq> None" by simp
    then obtain m where m: "attach_all atts m3 = Returned m"
      using attach_all_Returned_iff [of atts m3] by blast
    from attach_all_extends [OF m] to have to': "Msg_SetHeader ''To'' rcvs \<in> set m" by auto
    from run Some m
    have "SendSMTPEmailMessage w (Some cred) subject message isHtml attachments (Some rcvs) =
       (case strconv_Atoi w (Port cred) of
          Inl err \<Rightarrow> (Returned (Some (''Invalid port number: '' @ NumError_Error w err)), [])
        | Inr port \<Rightarrow>
            (DialAndSend w (NewDialer (Host cred) port (User cred) (Password cred)) m,
             [SmtpDialAndSend (NewDialer (Host cred) port (User cred) (Password cred)) m]))"
      by simp
    with to' show ?thesis by (intro exI [of _ m] conjI)
  qed
qed

lemma smtp_panics:
  assumes "credentials = None \<or> receivers = None
         \<or> (\<exists>atts. attachments = Some atts \<and> (\<exists>a \<in> set atts. Name a = None))"
  shows "SendSMTPEmailMessage w credentials subject message isHtml attachments receivers
         = (Panicked, [])"
proof (cases credentials)
  case None
  then show ?thesis by (simp add: SendSMTPEmailMessage_def)
next
  case cred: (Some cred)
  show ?thesis
  proof (cases receivers)
    case None
    with cred show ?thesis by (simp add: SendSMTPEmailMessage_def)
  next
    case rcvs: (Some rcvs)
    with cred assms obtain atts a where atts: "attachments = Some atts"
      and a: "a \<in> set atts" "Name a = None" by auto
    have "attach_all atts m = Panicked" for m
    proof (cases "attach_all atts m")
      case (Returned m')
      with attach_all_Returned_iff [of atts m] a show ?thesis by auto
    qed simp
    with cred rcvs atts show ?thesis
      by (simp add: SendSMTPEmailMessage_def Let_def)
  qed
qed


lemma strings_Contains_appendI: "strings_Contains e v \<Longrightarrow> strings_Contains (a @ e) v"
proof -
  assume "strings_Contains e v"
  then obtain p q where "e = p @ v @ q" by (auto simp: strings_Contains_iff)
  then have "a @ e = (a @ p) @ v @ q" by simp
  then show ?thesis unfolding strings_Contains_iff by blast
qed

lemma attachments_of_append: "attachments_of (a @ b) = attachments_of a @ attachments_of b"
  by (induction a rule: attachments_of.induct) auto

lemma demo_Atoi_587: "strconv_Atoi (demo_world code body) ''587'' = Inr 587"
  by (simp add: strconv_Atoi_def demo_world_def demo_Atoi_result_def is_digit_def)

lemma demo_Atoi_abc:
  "strconv_Atoi (demo_world code body) ''abc''
     = Inl \<lparr>Func = ''Atoi'', Num = ''abc'', Err = ErrSyntax\<rparr>"
  by (simp add: strconv_Atoi_def demo_world_def demo_Atoi_result_def is_digit_def)

lemma demo_DialAndSend: "DialAndSend (demo_world code body) dialer m = Returned None"
  by (simp add: demo_world_def)

text \<open>
  C9. The SMTP sender panics when the receivers pointer is \<open>nil\<close> or some attachment has
  a \<open>nil\<close> name, whatever the port string is, and before anything is called; so it returns
  only if the receivers are present and every attachment has a name. With credentials present
  too, the sender gets past its dereferences: it returns the port error or hands the message
  to \<open>DialAndSend\<close>. A receivers list that is present and empty is not refused: when the
  port parses, the message with the empty \<open>To\<close> header is handed to \<open>DialAndSend\<close>, and
  the sender ends as that call ends.
\<close>

theorem smtp_total_only_with_receivers_and_names:
  "(fst (SendSMTPEmailMessage w credentials subject message isHtml attachments receivers)
        \<noteq> Panicked
      \<longrightarrow> receivers \<noteq> None
          \<and> (\<forall>atts. attachments = Some atts \<longrightarrow> (\<forall>a \<in> set atts. Name a \<noteq> None)))
   \<and> (receivers = None \<or> (\<exists>atts. attachments = Some atts \<and> (\<exists>a \<in> set atts. Name a = None))
      \<longrightarrow> SendSMTPEmailMessage w credentials subject message isHtml attachments receivers
          = (Panicked, []))
   \<and> (credentials \<noteq> None \<and> receivers \<noteq> None
        \<and> (\<forall>atts. attachments = Some atts \<longrightarrow> (\<forall>a \<in> set atts. Name a \<noteq> None))
      \<longrightarrow> (\<exists>err. SendSMTPEmailMessage w credentials subject message isHtml attachments receivers
                 = (Returned (Some (''Invalid port number: '' @ err)), []))
          \<or> (\<exists>dialer m.
                SendSMTPEmailMessage w credentials subject message isHtml attachments receivers
                 = (DialAndSend w dialer m, [SmtpDialAndSend dialer m])))
   \<and> ((\<forall>atts. attachments = Some atts \<longrightarrow> (\<forall>a \<in> set atts. Name a \<noteq> None))
        \<and> strconv_Atoi w (Port cred) = Inr port
      \<longrightarrow> (\<exists>m. Msg_SetHeader ''To'' [] \<in> set m
             \<and> SendSMTPEmailMessage w (Some cred) subject message isHtml attachments (Some [])
               = (DialAndSend w
                    (NewDialer (Host cred) port (User cred) (Password cred)) m,
                  [SmtpDialAndSend
                    (NewDialer (Host cred) port (User cred) (Password cred)) m])))"
proof -
  let ?run = "SendSMTPEmailMessage w credentials subject message isHtml attachments receivers"
  let ?names = "\<forall>atts. attachments = Some atts \<longrightarrow> (\<forall>a \<in> set atts. Name a \<noteq> None)"
  have panics: "receivers = None \<or> (\<exists>atts. attachments = Some atts \<and> (\<exists>a \<in> set atts. Name a = None))
      \<longrightarrow> ?run = (Panicked, [])"
  proof
    assume "receivers = None \<or> (\<exists>atts. attachments = Some atts \<and> (\<exists>a \<in> set atts. Name a = None))"
    then have "credentials = None \<or> receivers = None
         \<or> (\<exists>atts. attachments = Some atts \<and> (\<exists>a \<in> set atts. Name a = None))"
      by (rule disjI2)
    then show "?run = (Panicked, [])" by (rule smtp_panics)
  qed
  have needed: "fst ?run \<noteq> Panicked \<longrightarrow> receivers \<noteq> None \<and> ?names"
  proof
    assume np: "fst ?run \<noteq> Panicked"
    show "receivers \<noteq> None \<and> ?names"
    proof (rule ccontr)
      assume "\<not> (receivers \<noteq> None \<and> ?names)"
      then have "receivers = None
         \<or> (\<exists>atts. attachments = Some atts \<and> (\<exists>a \<in> set atts. Name a = None))"
        by auto
      with panics have "?run = (Panicked, [])" by blast
      with np show False by simp
    qed
  qed
  have enough: "credentials \<noteq> None \<and> receivers \<noteq> None \<and> ?names
      \<longrightarrow> (\<exists>err. ?run = (Returned (Some (''Invalid port number: '' @ err)), []))
          \<or> (\<exists>dialer m. ?run = (DialAndSend w dialer m, [SmtpDialAndSend dialer m]))"
  proof
    assume a: "credentials \<noteq> None \<and> receivers \<noteq> None \<and> ?names"
    then obtain cred' rcvs where c: "credentials = Some cred'" and r: "receivers = Some rcvs"
      by auto
    from a have n: ?names by blast
    from smtp_run [OF n, of rcvs w cred' subject message isHtml]
    obtain m where "SendSMTPEmailMessage w (Some cred') subject message isHtml attachments (Some rcvs) =
       (case strconv_Atoi w (Port cred') of
          Inl err \<Rightarrow> (Returned (Some (''Invalid port number: '' @ NumError_Error w err)), [])
        | Inr port \<Rightarrow>
            (DialAndSend w (NewDialer (Host cred') port (User cred') (Password cred')) m,
             [SmtpDialAndSend (NewDialer (Host cred') port (User cred') (Password cred')) m]))"
      by blast
    with c r have run: "?run =
       (case strconv_Atoi w (Port cred') of
          Inl err \<Rightarrow> (Returned (Some (''Invalid port number: '' @ NumError_Error w err)), [])
        | Inr port \<Rightarrow>
            (DialAndSend w (NewDialer (Host cred') port (User cred') (Password cred')) m,
             [SmtpDialAndSend (NewDialer (Host cred') port (User cred') (Password cred')) m]))"
      by simp
    show "(\<exists>err. ?run = (Returned (Some (''Invalid port number: '' @ err)), []))
          \<or> (\<exists>dialer m. ?run = (DialAndSend w dialer m, [SmtpDialAndSend dialer m]))"
    proof (cases "strconv_Atoi w (Port cred')")
      case (Inl err)
      with run have "?run = (Returned (Some (''Invalid port number: '' @ NumError_Error w err)), [])"
        by simp
      then show ?thesis by blast
    next
      case (Inr port')
      with run have "?run =
          (DialAndSend w (NewDialer (Host cred') port' (User cred') (Password cred')) m,
           [SmtpDialAndSend (NewDialer (Host cred') port' (User cred') (Password cred')) m])"
        by simp
      then show ?thesis by blast
    qed
  qed
  have empty: "?names \<and> strconv_Atoi w (Port cred) = Inr port
      \<longrightarrow> (\<exists>m. Msg_SetHeader ''To'' [] \<in> set m
             \<and> SendSMTPEmailMessage w (Some cred) subject message isHtml attachments (Some [])
               = (DialAndSend w
                    (NewDialer (Host cred) port (User cred) (Password cred)) m,
                  [SmtpDialAndSend
                    (NewDialer (Host cred) port (User cred) (Password cred)) m]))"
  proof
    assume a: "?names \<and> strconv_Atoi w (Port cred) = Inr port"
    then have n: ?names and p: "strconv_Atoi w (Port cred) = Inr port" by blast+
    from smtp_run [OF n, of "[]" w cred subject message isHtml]
    obtain m where m: "Msg_SetHeader ''To'' [] \<in> set m"
      and run: "SendSMTPEmailMessage w (Some cred) subject message isHtml attachments (Some []) =
       (case strconv_Atoi w (Port cred) of
          Inl err \<Rightarrow> (Returned (Some (''Invalid port number: '' @ NumError_Error w err)), [])
        | Inr port \<Rightarrow>
            (DialAndSend w (NewDialer (Host cred) port (User cred) (Password cred)) m,
             [SmtpDialAndSend (NewDialer (Host cred) port (User cred) (Password cred)) m]))"
      by blast
    from run p have "SendSMTPEmailMessage w (Some cred) subject message isHtml attachments (Some [])
               = (DialAndSend w
                    (NewDialer (Host cred) port (User cred) (Password cred)) m,
                  [SmtpDialAndSend
                    (NewDialer (Host cred) port (User cred) (Password cred)) m])"
      by simp
    with m show "\<exists>m. Msg_SetHeader ''To'' [] \<in> set m
             \<and> SendSMTPEmailMessage w (Some cred) subject message isHtml attachments (Some [])
               = (DialAndSend w
                    (NewDialer (Host cred) port (User cred) (Password cred)) m,
                  [SmtpDialAndSend
                    (NewDialer (Host cred) port (User cred) (Password cred)) m])"
      by (intro exI conjI)
  qed
  from conjI [OF needed conjI [OF panics conjI [OF enough empty]]] show ?thesis .
qed



theorem smtp_total_only_with_receivers_and_names_witness:
  "SendSMTPEmailMessage (demo_world 200 []) (Some (demo_smtp_credentials ''587''))
      None (Some ''hello'') False None None = (Panicked, [])
   \<and> SendSMTPEmailMessage (demo_world 200 []) (Some (demo_smtp_credentials ''587''))
      None (Some ''hello'') False
      (Some [\<lparr>Data = Some (Reader ''abc'' None), Name = None\<rparr>]) (Some [''ann@example.org''])
     = (Panicked, [])
   \<and> strconv_Atoi (demo_world 200 []) (Port (demo_smtp_credentials ''587'')) = Inr 587
   \<and> (\<exists>m. Msg_SetHeader ''To'' [] \<in> set m
       \<and> SendSMTPEmailMessage (demo_world 200 []) (Some (demo_smtp_credentials ''587''))
           None (Some ''hello'') False None (Some [])
         = (DialAndSend (demo_world 200 [])
              (NewDialer (Host (demo_smtp_credentials ''587'')) 587
                 (User (demo_smtp_credentials ''587'')) (Password (demo_smtp_credentials ''587''))) m,
            [SmtpDialAndSend
              (NewDialer (Host (demo_smtp_credentials ''587'')) 587
                 (User (demo_smtp_credentials ''587'')) (Password (demo_smtp_credentials ''587''))) m]))
   \<and> SendSMTPEmailMessage (demo_world 200 []) (Some (demo_smtp_credentials ''587''))
           None (Some ''hello'') False None (Some [])
     = (Returned None,
        [SmtpDialAndSend (NewDialer ''smtp.example.org'' 587 ''mailer'' ''secret'')
          [Msg_SetHeader ''From'' [''mailer@example.org''], Msg_SetHeader ''To'' [],
           Msg_SetBody ''text/plain'' ''hello'']])"
proof -
  let ?w = "demo_world 200 []"
  let ?c = "demo_smtp_credentials ''587''"
  note T = smtp_total_only_with_receivers_and_names
  have p: "strconv_Atoi ?w (Port ?c) = Inr 587"
    by (simp add: demo_smtp_credentials_def demo_Atoi_587)
  have n: "\<forall>atts. (None :: EmailAttachment list option) = Some atts
      \<longrightarrow> (\<forall>a \<in> set atts. Name a \<noteq> None)"
    by simp
  have a: "\<exists>atts. Some [\<lparr>Data = Some (Reader ''abc'' None), Name = None\<rparr>] = Some atts
      \<and> (\<exists>a \<in> set atts. Name a = None)"
    by simp
  have p1: "SendSMTPEmailMessage ?w (Some ?c) None (Some ''hello'') False None None
      = (Panicked, [])"
    using T [of ?w "Some ?c" None "Some ''hello''" False None None ?c 587,
             THEN conjunct2, THEN conjunct1]
    by blast
  have p2: "SendSMTPEmailMessage ?w (Some ?c) None (Some ''hello'') False
      (Some [\<lparr>Data = Some (Reader ''abc'' None), Name = None\<rparr>]) (Some [''ann@example.org''])
      = (Panicked, [])"
    using T [of ?w "Some ?c" None "Some ''hello''" False
               "Some [\<lparr>Data = Some (Reader ''abc'' None), Name = None\<rparr>]"
               "Some [''ann@example.org'']" ?c 587,
             THEN conjunct2, THEN conjunct1, THEN mp, OF disjI2 [OF a]] .
  have p3: "\<exists>m. Msg_SetHeader ''To'' [] \<in> set m
       \<and> SendSMTPEmailMessage ?w (Some ?c) None (Some ''hello'') False None (Some [])
         = (DialAndSend ?w
              (NewDialer (Host ?c) 587 (User ?c) (Password ?c)) m,
            [SmtpDialAndSend (NewDialer (Host ?c) 587 (User ?c) (Password ?c)) m])"
    using T [of ?w "Some ?c" None "Some ''hello''" False None "Some []" ?c 587,
             THEN conjunct2, THEN conjunct2, THEN conjunct2, THEN mp, OF conjI [OF n p]] .
  have ok: "SendSMTPEmailMessage ?w (Some ?c) None (Some ''hello'') False None (Some [])
     = (Returned None,
        [SmtpDialAndSend (NewDialer ''smtp.example.org'' 587 ''mailer'' ''secret'')
          [Msg_SetHeader ''From'' [''mailer@example.org''], Msg_SetHeader ''To'' [],
           Msg_SetBody ''text/plain'' ''hello'']])"
    by (simp add: SendSMTPEmailMessage_def demo_smtp_credentials_def
          demo_Atoi_587 demo_DialAndSend Let_def)
  from conjI [OF p1 conjI [OF p2 conjI [OF p conjI [OF p3 ok]]]] show ?thesis .
qed

text \<open>
  \<open>strconv.Quote\<close> leaves a string of plain bytes as it is, between the two quotes; three
  strings with other bytes show the escapes.
\<close>

lemma of_char_plain:
  "plain_char c \<Longrightarrow> (of_char c :: nat) < 0x80 \<and> (of_char c :: nat) \<noteq> 0x22
      \<and> (of_char c :: nat) \<noteq> 0x5C \<and> 0x20 \<le> (of_char c :: nat) \<and> (of_char c :: nat) \<le> 0x7E"
proof -
  assume p: "plain_char c"
  have "(of_char c :: nat) = 0x22 \<Longrightarrow> c = CHR 0x22"
  proof -
    assume "(of_char c :: nat) = 0x22"
    then have "(of_char c :: nat) = of_char (CHR 0x22)" by simp
    then show "c = CHR 0x22" by (simp only: of_char_eq_iff)
  qed
  moreover have "(of_char c :: nat) = 0x5C \<Longrightarrow> c = CHR 0x5C"
  proof -
    assume "(of_char c :: nat) = 0x5C"
    then have "(of_char c :: nat) = of_char (CHR 0x5C)" by simp
    then show "c = CHR 0x5C" by (simp only: of_char_eq_iff)
  qed
  ultimately show ?thesis using p by (auto simp: plain_char_def)
qed

lemma appendEscapedRune_plain: "plain_char c \<Longrightarrow> appendEscapedRune w (of_char c) = [c]"
  using of_char_plain [of c]
  by (simp add: appendEscapedRune_def strconv_IsPrint_def utf8_AppendRune_def)

lemma quote_runes_plain: "list_all plain_char s \<Longrightarrow> quote_runes w s = s"
proof (induction s)
  case Nil
  then show ?case by simp
next
  case (Cons c cs)
  then have "plain_char c" and "list_all plain_char cs" by simp_all
  with Cons.IH of_char_plain [of c] show ?case
    by (simp add: appendEscapedRune_plain)
qed

lemma strconv_Quote_plain:
  "list_all plain_char s \<Longrightarrow> strconv_Quote w s = [CHR 0x22] @ s @ [CHR 0x22]"
  by (simp add: strconv_Quote_def quote_runes_plain)

lemma strconv_Atoi_Inl:
  "strconv_Atoi w s = Inl err \<Longrightarrow> Func err = ''Atoi'' \<and> Num err = s"
  by (auto simp: strconv_Atoi_def split: sum.splits)


text \<open>
  C6, as the claim states it, fails: the receivers pointer and the attachments' names are
  dereferenced before the port is parsed, so with a port that does not parse and a \<open>nil\<close>
  receivers pointer the sender panics and returns no error.
\<close>

theorem smtp_bad_port_counterexample:
  "strconv_Atoi (demo_world 200 []) (Port (demo_smtp_credentials ''abc''))
     = Inl \<lparr>Func = ''Atoi'', Num = ''abc'', Err = ErrSyntax\<rparr>
   \<and> SendSMTPEmailMessage (demo_world 200 []) (Some (demo_smtp_credentials ''abc''))
        (Some ''Greetings'') (Some ''hello'') False None None
     = (Panicked, [])"
  by (simp add: demo_smtp_credentials_def demo_Atoi_abc SendSMTPEmailMessage_def)

text \<open>
  C6, amended. When the receivers pointer is not \<open>nil\<close> and every attachment has a name,
  and \<open>strconv.Atoi\<close> fails on the port string, the sender returns the configuration error
  \<open>Invalid port number: strconv.Atoi: parsing\<close>, then the port string as \<open>strconv.Quote\<close>
  writes it, then a colon and \<open>invalid syntax\<close> or \<open>value out of range\<close>; and
  \<open>DialAndSend\<close> is not called. So the text names the invalid value in quoted form; a port
  string of plain bytes stands in the text as it is, between double quotes.
\<close>

theorem smtp_bad_port_is_configuration_error:
  assumes port: "strconv_Atoi w (Port cred) = Inl err"
    and names: "\<forall>atts. attachments = Some atts \<longrightarrow> (\<forall>a \<in> set atts. Name a \<noteq> None)"
  shows "SendSMTPEmailMessage w (Some cred) subject message isHtml attachments (Some rcvs)
           = (Returned (Some (''Invalid port number: strconv.Atoi: parsing '' @
                 strconv_Quote w (Port cred) @ '': '' @ Err_Error (Err err))), [])
       \<and> (Err_Error (Err err) = ''invalid syntax'' \<or> Err_Error (Err err) = ''value out of range'')
       \<and> strings_Contains
            (''Invalid port number: strconv.Atoi: parsing '' @
                 strconv_Quote w (Port cred) @ '': '' @ Err_Error (Err err))
            (strconv_Quote w (Port cred))
       \<and> (list_all plain_char (Port cred) \<longrightarrow>
            strconv_Quote w (Port cred) = [CHR 0x22] @ Port cred @ [CHR 0x22]
            \<and> strings_Contains
                 (''Invalid port number: strconv.Atoi: parsing '' @
                    strconv_Quote w (Port cred) @ '': '' @ Err_Error (Err err))
                 (Port cred))"
proof -
  let ?text = "''Invalid port number: strconv.Atoi: parsing '' @
                 strconv_Quote w (Port cred) @ '': '' @ Err_Error (Err err)"
  from strconv_Atoi_Inl [OF port]
  have shape: "''Invalid port number: '' @ NumError_Error w err = ?text"
    by (simp add: NumError_Error_def)
  from smtp_run [OF names, of rcvs w cred subject message isHtml]
  obtain m where "SendSMTPEmailMessage w (Some cred) subject message isHtml attachments (Some rcvs) =
       (case strconv_Atoi w (Port cred) of
          Inl err \<Rightarrow> (Returned (Some (''Invalid port number: '' @ NumError_Error w err)), [])
        | Inr port \<Rightarrow>
            (DialAndSend w (NewDialer (Host cred) port (User cred) (Password cred)) m,
             [SmtpDialAndSend (NewDialer (Host cred) port (User cred) (Password cred)) m]))"
    by blast
  with port
  have "SendSMTPEmailMessage w (Some cred) subject message isHtml attachments (Some rcvs)
           = (Returned (Some (''Invalid port number: '' @ NumError_Error w err)), [])"
    by simp
  then have run: "SendSMTPEmailMessage w (Some cred) subject message isHtml attachments (Some rcvs)
           = (Returned (Some ?text), [])"
    by (simp only: shape)
  have kind: "Err_Error (Err err) = ''invalid syntax'' \<or> Err_Error (Err err) = ''value out of range''"
    by (cases "Err err") (simp_all add: Err_Error_def)
  have quoted: "strings_Contains ?text (strconv_Quote w (Port cred))"
    by (rule strings_Contains_append)
  have plain: "list_all plain_char (Port cred) \<longrightarrow>
            strconv_Quote w (Port cred) = [CHR 0x22] @ Port cred @ [CHR 0x22]
            \<and> strings_Contains ?text (Port cred)"
  proof
    assume p: "list_all plain_char (Port cred)"
    have q: "strconv_Quote w (Port cred) = [CHR 0x22] @ Port cred @ [CHR 0x22]"
      using p by (rule strconv_Quote_plain)
    have "strings_Contains
        ((''Invalid port number: strconv.Atoi: parsing '' @ [CHR 0x22]) @ Port cred @
         ([CHR 0x22] @ '': '' @ Err_Error (Err err)))
        (Port cred)"
      by (rule strings_Contains_append)
    then have "strings_Contains ?text (Port cred)" by (simp only: q append_assoc)
    with q show "strconv_Quote w (Port cred) = [CHR 0x22] @ Port cred @ [CHR 0x22]
            \<and> strings_Contains ?text (Port cred)"
      by (rule conjI)
  qed
  from conjI [OF run conjI [OF kind conjI [OF quoted plain]]] show ?thesis .
qed

theorem smtp_bad_port_is_configuration_error_witness:
  \<open>strconv_Atoi (demo_world 200 []) (Port (demo_smtp_credentials ''abc''))
     = Inl \<lparr>Func = ''Atoi'', Num = ''abc'', Err = ErrSyntax\<rparr>
   \<and> list_all plain_char (Port (demo_smtp_credentials ''abc''))
   \<and> SendSMTPEmailMessage (demo_world 200 []) (Some (demo_smtp_credentials ''abc''))
        (Some ''Greetings'') (Some ''hello'') False None (Some [''ann@example.org''])
     = (Returned (Some ''Invalid port number: strconv.Atoi: parsing "abc": invalid syntax''), [])
   \<and> strings_Contains ''Invalid port number: strconv.Atoi: parsing "abc": invalid syntax''
        ''abc''\<close>
proof -
  let ?w = "demo_world 200 []"
  let ?c = "demo_smtp_credentials ''abc''"
  have p: "strconv_Atoi ?w (Port ?c) = Inl \<lparr>Func = ''Atoi'', Num = ''abc'', Err = ErrSyntax\<rparr>"
    by (simp add: demo_smtp_credentials_def demo_Atoi_abc)
  have n: "\<forall>atts. (None :: EmailAttachment list option) = Some atts
      \<longrightarrow> (\<forall>a \<in> set atts. Name a \<noteq> None)"
    by simp
  have pl: "list_all plain_char (Port ?c)"
    by (simp add: demo_smtp_credentials_def plain_char_def)
  have port: "Port ?c = ''abc''" by (simp add: demo_smtp_credentials_def)
  note T = smtp_bad_port_is_configuration_error
             [OF p n, of "Some ''Greetings''" "Some ''hello''" False "[''ann@example.org'']"]
  from T pl have q: "strconv_Quote ?w (Port ?c) = [CHR 0x22] @ Port ?c @ [CHR 0x22]" by blast
  from T [THEN conjunct1] q port
  have run: "SendSMTPEmailMessage ?w (Some ?c) (Some ''Greetings'') (Some ''hello'') False
      None (Some [''ann@example.org''])
     = (Returned (Some (''Invalid port number: strconv.Atoi: parsing '' @
          ([CHR 0x22] @ ''abc'' @ [CHR 0x22]) @ '': '' @ ''invalid syntax'')), [])"
    by (simp add: Err_Error_def)
  have c: "strings_Contains (''Invalid port number: strconv.Atoi: parsing '' @
          ([CHR 0x22] @ ''abc'' @ [CHR 0x22]) @ '': '' @ ''invalid syntax'') ''abc''"
    by simp
  from p pl run c show ?thesis by simp
qed

text \<open>
  C1, amended. A call with the message body present whose response has status 200 or 201 and
  a body that decodes. The first revision (\<^verbatim>\<open>MessagingUtilities.go\<close>) returns the
  logical-failure error, whose text ends with the decoded status text, exactly when that text
  contains \<open>Total Cost: KES 0.00\<close>, and returns success exactly when it does not. The second
  revision decides on the recipients: \<open>Sent recipient list is empty.\<close> unless exactly one
  is listed, \<open>Message could not be sent\<close> if that one has a status that is not empty,
  success otherwise.
\<close>

theorem at_logical_failure_iff_cost_marker:
  assumes resp: "ClientDo req (Inr resp) \<in> set tr"
    and status: "StatusCode resp = 200 \<or> StatusCode resp = 201"
  shows "(SendAfricasTalkingSmsMessage w credentials (Some msg) receiver = (out, tr)
            \<and> json_Decode w (Body resp) = Inr atResp
          \<longrightarrow> (out = Returned (Some
                  (''africa's talking send likely failed. Check API key/username. Response: '' @
                   Message (SMSMessageData atResp))))
               = strings_Contains (Message (SMSMessageData atResp)) ''Total Cost: KES 0.00''
             \<and> (out = Returned None)
               = (\<not> strings_Contains (Message (SMSMessageData atResp)) ''Total Cost: KES 0.00'')
             \<and> strings_Contains
                  (''africa's talking send likely failed. Check API key/username. Response: '' @
                   Message (SMSMessageData atResp))
                  (Message (SMSMessageData atResp)))
       \<and> (SendAfricasTalkingSmsMessage_variant w credentials (Some msg) receiver = (out, tr)
            \<and> json_Decode_v w (Body resp) = Inr atResp_v
          \<longrightarrow> out =
               (if length (Recipients (SMSMessageData_v atResp_v)) \<noteq> 1
                then Returned (Some ''Sent recipient list is empty.'')
                else if list_ex (\<lambda>r. status r \<noteq> []) (Recipients (SMSMessageData_v atResp_v))
                then Returned (Some ''Message could not be sent'')
                else Returned None))"
proof (rule conjI; rule impI)
  assume a: "SendAfricasTalkingSmsMessage_variant w credentials (Some msg) receiver = (out, tr)
            \<and> json_Decode_v w (Body resp) = Inr atResp_v"
  then have run: "SendAfricasTalkingSmsMessage_variant w credentials (Some msg) receiver = (out, tr)"
    and dec: "json_Decode_v w (Body resp) = Inr atResp_v" by simp_all
  from variant_judges_recipients [OF run resp status dec]
  show "out =
               (if length (Recipients (SMSMessageData_v atResp_v)) \<noteq> 1
                then Returned (Some ''Sent recipient list is empty.'')
                else if list_ex (\<lambda>r. status r \<noteq> []) (Recipients (SMSMessageData_v atResp_v))
                then Returned (Some ''Message could not be sent'')
                else Returned None)" .
next
  assume a: "SendAfricasTalkingSmsMessage w credentials (Some msg) receiver = (out, tr)
            \<and> json_Decode w (Body resp) = Inr atResp"
  then have run: "SendAfricasTalkingSmsMessage w credentials (Some msg) receiver = (out, tr)"
    and dec: "json_Decode w (Body resp) = Inr atResp" by simp_all
  from status have ok: "\<not> (StatusCode resp \<noteq> 201 \<and> StatusCode resp \<noteq> 200)" by auto
  from at_response_run [OF run resp] ok dec
  have out: "out =
      (if strings_Contains (Message (SMSMessageData atResp)) ''Total Cost: KES 0.00''
       then Returned (Some
            (''africa's talking send likely failed. Check API key/username. Response: '' @
             Message (SMSMessageData atResp)))
       else Returned None)"
    by simp
  define e where "e =
    ''africa's talking send likely failed. Check API key/username. Response: '' @
             Message (SMSMessageData atResp)"
  have c: "strings_Contains e (Message (SMSMessageData atResp))"
    unfolding e_def by (rule strings_Contains_suffix)
  from out have "out = (if strings_Contains (Message (SMSMessageData atResp)) ''Total Cost: KES 0.00''
       then Returned (Some e) else Returned None)"
    unfolding e_def .
  with c have "(out = Returned (Some e))
         = strings_Contains (Message (SMSMessageData atResp)) ''Total Cost: KES 0.00''
       \<and> (out = Returned None)
         = (\<not> strings_Contains (Message (SMSMessageData atResp)) ''Total Cost: KES 0.00'')
       \<and> strings_Contains e (Message (SMSMessageData atResp))"
    by (cases "strings_Contains (Message (SMSMessageData atResp)) ''Total Cost: KES 0.00''")
       simp_all
  then show "(out = Returned (Some
                  (''africa's talking send likely failed. Check API key/username. Response: '' @
                   Message (SMSMessageData atResp))))
               = strings_Contains (Message (SMSMessageData atResp)) ''Total Cost: KES 0.00''
             \<and> (out = Returned None)
               = (\<not> strings_Contains (Message (SMSMessageData atResp)) ''Total Cost: KES 0.00'')
             \<and> strings_Contains
                  (''africa's talking send likely failed. Check API key/username. Response: '' @
                   Message (SMSMessageData atResp))
                  (Message (SMSMessageData atResp))"
    unfolding e_def .
qed

lemma demo_run_v:
  "SendAfricasTalkingSmsMessage_variant (demo_world code body) (Some demo_at_credentials)
       (Some msg) (Some ''+254700000001'') =
   (if code \<noteq> 201 \<and> code \<noteq> 200 then
      (Returned (Some (''Africa's talking API failed with status '' @
            fmt_d code @ ''. Response body: '' @ body)),
       [ClientDo demo_request_v (Inr \<lparr>StatusCode = code, Body = Reader body None\<rparr>),
        BodyReadAll (Reader body None), BodyClose (Reader body None)])
    else
      (case demo_Decode_v (Reader body None) of
         Inl err \<Rightarrow>
           (Returned (Some (''Successfully sent, but failed to parse response: '' @ err)),
            [ClientDo demo_request_v (Inr \<lparr>StatusCode = code, Body = Reader body None\<rparr>),
             BodyDecode (Reader body None), BodyClose (Reader body None)])
       | Inr atResp \<Rightarrow>
           (if length (Recipients (SMSMessageData_v atResp)) \<noteq> 1
            then Returned (Some ''Sent recipient list is empty.'')
            else if list_ex (\<lambda>r. status r \<noteq> []) (Recipients (SMSMessageData_v atResp))
            then Returned (Some ''Message could not be sent'')
            else Returned None,
            [ClientDo demo_request_v (Inr \<lparr>StatusCode = code, Body = Reader body None\<rparr>),
             BodyDecode (Reader body None), BodyClose (Reader body None)])))"
  by (simp add: SendAfricasTalkingSmsMessage_variant_def demo_world_def demo_at_credentials_def
        demo_request_v_def io_ReadAll_def Let_def split: sum.splits)

lemma demo_Decode_v_000:
  \<open>demo_Decode_v
      (Reader ''{"SMSMessageData":{"Message":"Sent to 1/1 Total Cost: KES 0.00","Recipients":[{}]}}'' None)
     = Inr \<lparr>SMSMessageData_v =
             \<lparr>Message_v = ''Sent to 1/1 Total Cost: KES 0.00'', Recipients = [\<lparr>status = []\<rparr>]\<rparr>\<rparr>\<close>
  by (simp add: demo_Decode_v_def strip_suffix_def plain_char_def)

lemma demo_Decode_v_150:
  \<open>demo_Decode_v
      (Reader ''{"SMSMessageData":{"Message":"Sent to 1/1 Total Cost: KES 1.50"}}'' None)
     = Inr \<lparr>SMSMessageData_v =
             \<lparr>Message_v = ''Sent to 1/1 Total Cost: KES 1.50'', Recipients = []\<rparr>\<rparr>\<close>
  by (simp add: demo_Decode_v_def strip_suffix_def plain_char_def)

lemma demo_json_Decode: "json_Decode (demo_world code body) = demo_Decode"
  by (simp add: demo_world_def)

lemma demo_json_Decode_v: "json_Decode_v (demo_world code body) = demo_Decode_v"
  by (simp add: demo_world_def)

text \<open>
  C1, as the claim states it, fails on the second revision, which the claim cites too: that
  sender never reads the status text. With status 200 and a decoded status text that holds
  \<open>Total Cost: KES 0.00\<close> and one recipient it returns success; with status 201, the text
  \<open>Sent to 1/1 Total Cost: KES 1.50\<close> and no recipient it returns an error.
\<close>

theorem variant_ignores_cost_marker_counterexample:
  \<open>SendAfricasTalkingSmsMessage_variant
      (demo_world 200
        ''{"SMSMessageData":{"Message":"Sent to 1/1 Total Cost: KES 0.00","Recipients":[{}]}}'')
      (Some demo_at_credentials) (Some ''hello'') (Some ''+254700000001'')
     = (Returned None,
        [ClientDo demo_request_v
           (Inr \<lparr>StatusCode = 200,
                 Body = Reader ''{"SMSMessageData":{"Message":"Sent to 1/1 Total Cost: KES 0.00","Recipients":[{}]}}'' None\<rparr>),
         BodyDecode (Reader ''{"SMSMessageData":{"Message":"Sent to 1/1 Total Cost: KES 0.00","Recipients":[{}]}}'' None),
         BodyClose (Reader ''{"SMSMessageData":{"Message":"Sent to 1/1 Total Cost: KES 0.00","Recipients":[{}]}}'' None)])
   \<and> json_Decode_v
        (demo_world 200
          ''{"SMSMessageData":{"Message":"Sent to 1/1 Total Cost: KES 0.00","Recipients":[{}]}}'')
        (Reader ''{"SMSMessageData":{"Message":"Sent to 1/1 Total Cost: KES 0.00","Recipients":[{}]}}'' None)
     = Inr \<lparr>SMSMessageData_v =
             \<lparr>Message_v = ''Sent to 1/1 Total Cost: KES 0.00'', Recipients = [\<lparr>status = []\<rparr>]\<rparr>\<rparr>
   \<and> strings_Contains ''Sent to 1/1 Total Cost: KES 0.00'' ''Total Cost: KES 0.00''
   \<and> SendAfricasTalkingSmsMessage_variant
      (demo_world 201 ''{"SMSMessageData":{"Message":"Sent to 1/1 Total Cost: KES 1.50"}}'')
      (Some demo_at_credentials) (Some ''hello'') (Some ''+254700000001'')
     = (Returned (Some ''Sent recipient list is empty.''),
        [ClientDo demo_request_v
           (Inr \<lparr>StatusCode = 201,
                 Body = Reader ''{"SMSMessageData":{"Message":"Sent to 1/1 Total Cost: KES 1.50"}}'' None\<rparr>),
         BodyDecode (Reader ''{"SMSMessageData":{"Message":"Sent to 1/1 Total Cost: KES 1.50"}}'' None),
         BodyClose (Reader ''{"SMSMessageData":{"Message":"Sent to 1/1 Total Cost: KES 1.50"}}'' None)])
   \<and> json_Decode_v
        (demo_world 201 ''{"SMSMessageData":{"Message":"Sent to 1/1 Total Cost: KES 1.50"}}'')
        (Reader ''{"SMSMessageData":{"Message":"Sent to 1/1 Total Cost: KES 1.50"}}'' None)
     = Inr \<lparr>SMSMessageData_v =
             \<lparr>Message_v = ''Sent to 1/1 Total Cost: KES 1.50'', Recipients = []\<rparr>\<rparr>
   \<and> \<not> strings_Contains ''Sent to 1/1 Total Cost: KES 1.50'' ''Total Cost: KES 0.00''\<close>
  unfolding demo_run_v demo_json_Decode_v demo_Decode_v_000 demo_Decode_v_150
  by simp

theorem at_logical_failure_iff_cost_marker_witness:
  \<open>SendAfricasTalkingSmsMessage
      (demo_world 201 ''{"SMSMessageData":{"Message":"Sent to 1/1 Total Cost: KES 1.50"}}'')
      (Some demo_at_credentials) (Some ''hello'') (Some ''+254700000001'')
     = (Returned None,
        [ClientDo (demo_request ''hello'')
           (Inr \<lparr>StatusCode = 201,
                 Body = Reader ''{"SMSMessageData":{"Message":"Sent to 1/1 Total Cost: KES 1.50"}}'' None\<rparr>),
         BodyDecode (Reader ''{"SMSMessageData":{"Message":"Sent to 1/1 Total Cost: KES 1.50"}}'' None),
         BodyClose (Reader ''{"SMSMessageData":{"Message":"Sent to 1/1 Total Cost: KES 1.50"}}'' None)])
   \<and> \<not> strings_Contains ''Sent to 1/1 Total Cost: KES 1.50'' ''Total Cost: KES 0.00''
   \<and> fst (SendAfricasTalkingSmsMessage
      (demo_world 200 ''{"SMSMessageData":{"Message":"Sent to 1/1 Total Cost: KES 0.00"}}'')
      (Some demo_at_credentials) (Some ''hello'') (Some ''+254700000001''))
     = Returned (Some (''africa's talking send likely failed. Check API key/username. Response: '' @
                       ''Sent to 1/1 Total Cost: KES 0.00''))
   \<and> strings_Contains ''Sent to 1/1 Total Cost: KES 0.00'' ''Total Cost: KES 0.00''
   \<and> fst (SendAfricasTalkingSmsMessage_variant
      (demo_world 201 ''{"SMSMessageData":{"Message":"Sent to 1/1 Total Cost: KES 1.50"}}'')
      (Some demo_at_credentials) (Some ''hello'') (Some ''+254700000001''))
     = Returned (Some ''Sent recipient list is empty.'')\<close>
proof -
  let ?b1 = \<open>''{"SMSMessageData":{"Message":"Sent to 1/1 Total Cost: KES 1.50"}}''\<close>
  let ?b0 = \<open>''{"SMSMessageData":{"Message":"Sent to 1/1 Total Cost: KES 0.00"}}''\<close>
  let ?r1 = "\<lparr>StatusCode = 201, Body = Reader ?b1 None\<rparr>"
  let ?r0 = "\<lparr>StatusCode = 200, Body = Reader ?b0 None\<rparr>"
  let ?t1 = "[ClientDo (demo_request ''hello'') (Inr ?r1),
              BodyDecode (Reader ?b1 None), BodyClose (Reader ?b1 None)]"
  let ?t0 = "[ClientDo (demo_request ''hello'') (Inr ?r0),
              BodyDecode (Reader ?b0 None), BodyClose (Reader ?b0 None)]"
  let ?tv = "[ClientDo demo_request_v (Inr ?r1),
              BodyDecode (Reader ?b1 None), BodyClose (Reader ?b1 None)]"
  let ?e0 = "Returned (Some (''africa's talking send likely failed. Check API key/username. Response: '' @
                       ''Sent to 1/1 Total Cost: KES 0.00'')) :: error option outcome"
  let ?ev = "Returned (Some ''Sent recipient list is empty.'') :: error option outcome"
  have n1: "\<not> strings_Contains ''Sent to 1/1 Total Cost: KES 1.50'' ''Total Cost: KES 0.00''"
    by simp
  have c0: "strings_Contains ''Sent to 1/1 Total Cost: KES 0.00'' ''Total Cost: KES 0.00''"
    by simp
  have run1: "SendAfricasTalkingSmsMessage (demo_world 201 ?b1) (Some demo_at_credentials)
      (Some ''hello'') (Some ''+254700000001'') = (Returned None, ?t1)"
    unfolding demo_run demo_Decode_150 using n1 by simp
  have run0: "SendAfricasTalkingSmsMessage (demo_world 200 ?b0) (Some demo_at_credentials)
      (Some ''hello'') (Some ''+254700000001'') = (?e0, ?t0)"
    unfolding demo_run demo_Decode_000 using c0 by simp
  have runv: "SendAfricasTalkingSmsMessage_variant (demo_world 201 ?b1) (Some demo_at_credentials)
      (Some ''hello'') (Some ''+254700000001'') = (?ev, ?tv)"
    unfolding demo_run_v demo_Decode_v_150 by simp
  have d1: "json_Decode (demo_world 201 ?b1) (Body ?r1)
      = Inr \<lparr>SMSMessageData = \<lparr>Message = ''Sent to 1/1 Total Cost: KES 1.50''\<rparr>\<rparr>"
    using demo_Decode_150 by (simp add: demo_json_Decode)
  have d0: "json_Decode (demo_world 200 ?b0) (Body ?r0)
      = Inr \<lparr>SMSMessageData = \<lparr>Message = ''Sent to 1/1 Total Cost: KES 0.00''\<rparr>\<rparr>"
    using demo_Decode_000 by (simp add: demo_json_Decode)
  have dv: "json_Decode_v (demo_world 201 ?b1) (Body ?r1)
      = Inr \<lparr>SMSMessageData_v =
             \<lparr>Message_v = ''Sent to 1/1 Total Cost: KES 1.50'', Recipients = []\<rparr>\<rparr>"
    using demo_Decode_v_150 by (simp add: demo_json_Decode_v)
  have m1: "ClientDo (demo_request ''hello'') (Inr ?r1) \<in> set ?t1" by simp
  have m0: "ClientDo (demo_request ''hello'') (Inr ?r0) \<in> set ?t0" by simp
  have mv: "ClientDo demo_request_v (Inr ?r1) \<in> set ?tv" by simp
  have s1: "StatusCode ?r1 = 200 \<or> StatusCode ?r1 = 201" by simp
  have s0: "StatusCode ?r0 = 200 \<or> StatusCode ?r0 = 201" by simp
  from at_logical_failure_iff_cost_marker [OF m1 s1, THEN conjunct1, THEN mp, OF conjI [OF run1 d1]]
       at_logical_failure_iff_cost_marker [OF m0 s0, THEN conjunct1, THEN mp, OF conjI [OF run0 d0]]
       at_logical_failure_iff_cost_marker [OF mv s1, THEN conjunct2, THEN mp, OF conjI [OF runv dv]]
       run1 run0 runv n1 c0
  show ?thesis by simp
qed

text \<open>
  The body that gomail writes for an attachment reads back: base64 decoding undoes the
  encoding, and the line breaks are not of the alphabet.
\<close>

lemma index_of_nth: "distinct xs \<Longrightarrow> i < length xs \<Longrightarrow> index_of xs (xs ! i) = i"
proof (induction xs arbitrary: i)
  case Nil
  then show ?case by simp
next
  case (Cons x xs)
  show ?case
  proof (cases i)
    case 0
    then show ?thesis by simp
  next
    case (Suc j)
    with Cons.prems have j: "j < length xs" and d: "distinct xs" and x: "x \<notin> set xs" by simp_all
    from j x have "xs ! j \<noteq> x" by (metis nth_mem)
    with Cons.IH [OF d j] Suc show ?thesis by simp
  qed
qed

lemma length_encodeStd: "length encodeStd = 64"
  by (simp add: encodeStd_def)

lemma distinct_encodeStd: "distinct encodeStd"
  by (simp add: encodeStd_def)

lemma pad_not_encodeStd: "CHR ''='' \<notin> set encodeStd"
  by (simp add: encodeStd_def)

lemma breaks_not_encodeStd: "CHR 0x0D \<notin> set encodeStd \<and> CHR 0x0A \<notin> set encodeStd"
  by (simp add: encodeStd_def)

lemma value_encodeStd: "i < 64 \<Longrightarrow> index_of encodeStd (encodeStd ! i) = i"
  using index_of_nth [OF distinct_encodeStd, of i] by (simp add: length_encodeStd)

lemma encodeStd_mem: "i < 64 \<Longrightarrow> encodeStd ! i \<in> set encodeStd"
proof -
  assume "i < 64"
  then have "i < length encodeStd" by (simp only: length_encodeStd)
  then show ?thesis by (rule nth_mem)
qed

lemma encodeStd_not_pad: "i < 64 \<Longrightarrow> encodeStd ! i \<noteq> CHR ''=''"
  using pad_not_encodeStd encodeStd_mem [of i] by metis

lemma d1: fixes m n :: nat assumes "n < 256" shows "((m mod 4) * 16 + n div 16) div 16 = m mod 4"
proof -
  from assms have "n div 16 < 16" by simp
  then show ?thesis by simp
qed
lemma d2: fixes m n :: nat assumes "n < 256" shows "((m mod 4) * 16 + n div 16) mod 16 = n div 16"
proof -
  from assms have "n div 16 < 16" by simp
  then show ?thesis by simp
qed
lemma d3: fixes n k :: nat assumes "k < 256" shows "((n mod 16) * 4 + k div 64) div 4 = n mod 16"
proof -
  from assms have "k div 64 < 4" by simp
  then show ?thesis by simp
qed
lemma d4: fixes n k :: nat assumes "k < 256" shows "((n mod 16) * 4 + k div 64) mod 4 = k div 64"
proof -
  from assms have "k div 64 < 4" by simp
  then show ?thesis by simp
qed
lemma d5: fixes n :: nat assumes "n < 256" shows "n div 16 mod 16 = n div 16" "n div 64 mod 4 = n div 64"
  using assms by simp_all
lemma b1: fixes m :: nat assumes "m < 256" shows "m div 4 < 64" using assms by simp
lemma b2: fixes m n :: nat assumes "n < 256" shows "(m mod 4) * 16 + n div 16 < 64"
proof -
  from assms have "n div 16 < 16" by simp
  moreover have "m mod 4 < 4" by simp
  ultimately show ?thesis by linarith
qed
lemma b3: fixes n k :: nat assumes "k < 256" shows "(n mod 16) * 4 + k div 64 < 64"
proof -
  from assms have "k div 64 < 4" by simp
  moreover have "n mod 16 < 16" by simp
  ultimately show ?thesis by linarith
qed
lemma b4: fixes m :: nat shows "(m mod 4) * 16 < 64" "(m mod 16) * 4 < 64" "m mod 64 < 64"
proof -
  have "m mod 4 < 4" by simp
  then show "(m mod 4) * 16 < 64" by linarith
  have "m mod 16 < 16" by simp
  then show "(m mod 16) * 4 < 64" by linarith
  show "m mod 64 < 64" by simp
qed
lemma r1: fixes m :: nat shows "m div 4 * 4 + m mod 4 = m" "n div 16 * 16 + n mod 16 = (n::nat)" "k div 64 * 64 + k mod 64 = (k::nat)"
  by simp_all
lemma z1: fixes m :: nat shows "((m mod 4) * 16) div 16 = m mod 4" "((m mod 16) * 4) div 4 = m mod 16" by simp_all
lemma base64_round_trip: "base64_Decode (base64_Encode bs) = bs"
proof (induction bs rule: base64_Encode.induct)
  case 1
  then show ?case by simp
next
  case (2 a)
  have m: "(of_char a :: nat) < 256" by simp
  have "char_of ((of_char a :: nat) div 4 * 4 + (of_char a :: nat) mod 4) = a"
    by (simp only: r1 char_of_char)
  then show ?case
    by (simp add: Let_def value_encodeStd encodeStd_not_pad b1 [OF m] b4 z1)
next
  case (3 a b)
  have m: "(of_char a :: nat) < 256" and n: "(of_char b :: nat) < 256" by simp_all
  have "char_of ((of_char a :: nat) div 4 * 4 + (of_char a :: nat) mod 4) = a"
    and "char_of ((of_char b :: nat) div 16 * 16 + (of_char b :: nat) mod 16) = b"
    by (simp_all only: r1 char_of_char)
  then show ?case
    by (simp add: Let_def value_encodeStd encodeStd_not_pad b1 [OF m] b2 [OF n] b4 z1
          d1 [OF n] d2 [OF n] d5 [OF n])
next
  case (4 a b c rest)
  have m: "(of_char a :: nat) < 256" and n: "(of_char b :: nat) < 256"
    and k: "(of_char c :: nat) < 256" by simp_all
  have "char_of ((of_char a :: nat) div 4 * 4 + (of_char a :: nat) mod 4) = a"
    and "char_of ((of_char b :: nat) div 16 * 16 + (of_char b :: nat) mod 16) = b"
    and "char_of ((of_char c :: nat) div 64 * 64 + (of_char c :: nat) mod 64) = c"
    by (simp_all only: r1 char_of_char)
  with "4.IH" show ?case
    by (simp add: Let_def value_encodeStd encodeStd_not_pad b1 [OF m] b2 [OF n] b3 [OF k] b4
          d1 [OF n] d2 [OF n] d3 [OF k] d4 [OF k] d5 [OF n] d5 [OF k])
qed

lemma set_base64_Encode: "set (base64_Encode bs) \<subseteq> set encodeStd \<union> {CHR ''=''}"
proof (induction bs rule: base64_Encode.induct)
  case 1
  then show ?case by simp
next
  case (2 a)
  have m: "(of_char a :: nat) < 256" by simp
  show ?case by (simp add: Let_def encodeStd_mem b1 [OF m] b4)
next
  case (3 a b)
  have m: "(of_char a :: nat) < 256" and n: "(of_char b :: nat) < 256" by simp_all
  show ?case by (simp add: Let_def encodeStd_mem b1 [OF m] b2 [OF n] b4)
next
  case (4 a b c rest)
  have m: "(of_char a :: nat) < 256" and n: "(of_char b :: nat) < 256"
    and k: "(of_char c :: nat) < 256" by simp_all
  from "4.IH" show ?case
    by (simp add: Let_def encodeStd_mem b1 [OF m] b2 [OF n] b3 [OF k] b4)
qed

lemma filter_base64LineWriter:
  "filter (\<lambda>c. c \<in> set encodeStd \<or> c = CHR ''='') (base64LineWriter p)
     = filter (\<lambda>c. c \<in> set encodeStd \<or> c = CHR ''='') p"
proof (induction p rule: base64LineWriter.induct)
  case (1 p)
  show ?case
  proof (cases "76 < length p")
    case True
    have "filter (\<lambda>c. c \<in> set encodeStd \<or> c = CHR ''='') (base64LineWriter p)
        = filter (\<lambda>c. c \<in> set encodeStd \<or> c = CHR ''='') (take 76 p)
          @ filter (\<lambda>c. c \<in> set encodeStd \<or> c = CHR ''='') (base64LineWriter (drop 76 p))"
      using True breaks_not_encodeStd by (subst base64LineWriter.simps) simp
    also have "\<dots> = filter (\<lambda>c. c \<in> set encodeStd \<or> c = CHR ''='') (take 76 p)
          @ filter (\<lambda>c. c \<in> set encodeStd \<or> c = CHR ''='') (drop 76 p)"
      by (simp only: "1.IH" [OF True])
    also have "\<dots> = filter (\<lambda>c. c \<in> set encodeStd \<or> c = CHR ''='') (take 76 p @ drop 76 p)"
      by (simp only: filter_append)
    also have "\<dots> = filter (\<lambda>c. c \<in> set encodeStd \<or> c = CHR ''='') p"
      by (simp only: append_take_drop_id)
    finally show ?thesis .
  next
    case False
    then show ?thesis by (subst base64LineWriter.simps) simp
  qed
qed

lemma read_back_writeBody: "read_back (base64LineWriter (base64_Encode bs)) = bs"
proof -
  have "filter (\<lambda>c. c \<in> set encodeStd \<or> c = CHR ''='') (base64_Encode bs) = base64_Encode bs"
    using set_base64_Encode [of bs] by (auto simp: filter_id_conv)
  then show ?thesis
    by (simp add: read_back_def filter_base64LineWriter base64_round_trip)
qed

lemma base64_Encode_examples: "base64_Encode ''Man'' = ''TWFu''" "base64_Encode ''Ma'' = ''TWE=''" "base64_Encode ''M'' = ''TQ==''"
  by (simp_all add: encodeStd_def)

lemma base64LineWriter_example: "base64LineWriter (replicate 80 (CHR ''A'')) = replicate 76 (CHR ''A'') @ [CHR 0x0D, CHR 0x0A] @ replicate 4 (CHR ''A'')"
  by (simp add: base64LineWriter.simps)

lemma filepath_Base_examples: "filepath_Base ''reports/q3.pdf'' = ''q3.pdf''" "filepath_Base '''' = ''.''" "filepath_Base ''a/b//'' = ''b''" "filepath_Base ''///'' = ''/''" "filepath_Base ''q3.pdf'' = ''q3.pdf''"
  by (simp_all add: filepath_Base_def)

lemma filepath_Base_plain:
  assumes "name \<noteq> []" and "CHR ''/'' \<notin> set name"
  shows "filepath_Base name = name"
proof -
  from assms(2) have all: "\<forall>c \<in> set (rev name). c \<noteq> CHR ''/''" by auto
  from assms(1) obtain c cs where r: "rev name = c # cs" by (cases "rev name") auto
  with all have "c \<noteq> CHR ''/''" by simp
  with r have d: "dropWhile (\<lambda>c. c = CHR ''/'') (rev name) = rev name" by simp
  from all have t: "takeWhile (\<lambda>c. c \<noteq> CHR ''/'') (rev name) = rev name"
    by (simp add: takeWhile_eq_all_conv)
  show ?thesis
    by (simp only: filepath_Base_def Let_def d t rev_rev_ident assms(1) if_False)
qed

text \<open>
  C7, as the claim states it, fails on the name: gomail names the attachment
  \<open>filepath.Base\<close> of the name it is given, so for the display name \<open>reports/q3.pdf\<close>
  the message handed to \<open>DialAndSend\<close> carries an attachment named \<open>q3.pdf\<close>.
\<close>

theorem smtp_attachment_name_counterexample:
  "sent_attachment_names
     (snd (SendSMTPEmailMessage (demo_world 200 []) (Some (demo_smtp_credentials ''587''))
        (Some ''Report'') (Some ''see attachment'') False
        (Some [\<lparr>Data = Some (Reader ''%PDF-1.7 body'' None), Name = Some ''reports/q3.pdf''\<rparr>])
        (Some [''ann@example.org''])))
   = [[''q3.pdf'']]"
  by (simp add: SendSMTPEmailMessage_def demo_smtp_credentials_def demo_Atoi_587 demo_DialAndSend
        Let_def appendFile_def filepath_Base_def)

text \<open>
  C7, amended. An SMTP send whose attachment list has one entry, with a name and a reader: the
  message handed to \<open>DialAndSend\<close> holds exactly one attachment. Its name is
  \<open>filepath.Base\<close> of the given name, which is the given name itself when that is not
  empty and holds no slash (the slash being the path separator). The header the sender gives
  it is \<open>Content-Type: application/octet-stream\<close> alone, whatever the bytes are. Its copy
  function writes exactly the reader's bytes, and the body gomail writes from it reads back
  to exactly those bytes.
\<close>

theorem smtp_attachment_round_trip:
  assumes run: "SendSMTPEmailMessage w credentials subject message isHtml
                  (Some [\<lparr>Data = Some rd, Name = Some name\<rparr>]) receivers = (out, tr)"
    and sent: "SmtpDialAndSend dialer m \<in> set tr"
  shows "\<exists>f copy wire.
            attachments_of m = [f]
          \<and> file_Name f = filepath_Base name
          \<and> (name \<noteq> [] \<and> CHR ''/'' \<notin> set name \<longrightarrow> file_Name f = name)
          \<and> file_Header f = [''Content-Type'' \<mapsto> [''application/octet-stream'']]
          \<and> file_CopyFunc f = CopyFunc copy
          \<and> (\<forall>buf. copy buf = Returned (buf @ content rd, failure rd))
          \<and> writeBody copy = Returned (wire, failure rd)
          \<and> read_back wire = content rd"
proof -
  define f where "f = appendFile name
      [SetHeader [(''Content-Type'', [''application/octet-stream''])],
       SetCopyFunc (\<lambda>w. io_Copy w (Some rd))]"
  define copy where "copy = (\<lambda>w. io_Copy w (Some rd))"
  define wire where "wire = base64LineWriter (base64_Encode (content rd))"
  have att: "attachments_of m = [f]"
  proof (cases credentials)
    case None
    with run[symmetric] sent show ?thesis by (simp add: SendSMTPEmailMessage_def)
  next
    case cred: (Some cred)
    show ?thesis
    proof (cases receivers)
      case None
      with run[symmetric] sent cred show ?thesis by (simp add: SendSMTPEmailMessage_def)
    next
      case rcvs: (Some rcvs)
      show ?thesis
      proof (cases "strconv_Atoi w (Port cred)")
        case (Inl err)
        with run[symmetric] sent cred rcvs show ?thesis
          by (simp add: SendSMTPEmailMessage_def Let_def)
      next
        case (Inr port)
        with run[symmetric] sent cred rcvs show ?thesis
          by (auto simp add: SendSMTPEmailMessage_def Let_def f_def attachments_of_append
                split: option.splits)
      qed
    qed
  qed
  have name: "file_Name f = filepath_Base name"
    by (simp add: f_def appendFile_def)
  have plain: "name \<noteq> [] \<and> CHR ''/'' \<notin> set name \<longrightarrow> file_Name f = name"
    using name filepath_Base_plain by simp
  have hdr: "file_Header f = [''Content-Type'' \<mapsto> [''application/octet-stream'']]"
    by (simp add: f_def appendFile_def)
  have cf: "file_CopyFunc f = CopyFunc copy"
    by (simp add: f_def appendFile_def copy_def)
  have bytes: "\<forall>buf. copy buf = Returned (buf @ content rd, failure rd)"
    by (simp add: copy_def io_Copy_def)
  have body: "writeBody copy = Returned (wire, failure rd)"
    by (simp add: writeBody_def copy_def io_Copy_def wire_def)
  have rb: "read_back wire = content rd"
    unfolding wire_def by (rule read_back_writeBody)
  from att name plain hdr cf bytes body rb show ?thesis
    by (intro exI [of _ f] exI [of _ copy] exI [of _ wire] conjI)
qed

theorem smtp_attachment_round_trip_witness:
  "SendSMTPEmailMessage (demo_world 200 []) (Some (demo_smtp_credentials ''587''))
        (Some ''Report'') (Some ''see attachment'') False
        (Some [\<lparr>Data = Some (Reader ''Man'' None), Name = Some ''report.pdf''\<rparr>])
        (Some [''ann@example.org''])
     = (Returned None,
        [SmtpDialAndSend (NewDialer ''smtp.example.org'' 587 ''mailer'' ''secret'')
         [Msg_SetHeader ''From'' [''mailer@example.org''],
          Msg_SetHeader ''To'' [''ann@example.org''],
          Msg_SetHeader ''Subject'' [''Report''],
          Msg_SetBody ''text/plain'' ''see attachment'',
          Msg_Attach ''report.pdf''
            [SetHeader [(''Content-Type'', [''application/octet-stream''])],
             SetCopyFunc (\<lambda>w. io_Copy w (Some (Reader ''Man'' None)))]]])
   \<and> (\<exists>f copy wire. attachments_of
         [Msg_SetHeader ''From'' [''mailer@example.org''],
          Msg_SetHeader ''To'' [''ann@example.org''],
          Msg_SetHeader ''Subject'' [''Report''],
          Msg_SetBody ''text/plain'' ''see attachment'',
          Msg_Attach ''report.pdf''
            [SetHeader [(''Content-Type'', [''application/octet-stream''])],
             SetCopyFunc (\<lambda>w. io_Copy w (Some (Reader ''Man'' None)))]]
        = [f]
      \<and> file_Name f = ''report.pdf''
      \<and> file_Header f = [''Content-Type'' \<mapsto> [''application/octet-stream'']]
      \<and> file_CopyFunc f = CopyFunc copy
      \<and> writeBody copy = Returned (wire, None)
      \<and> read_back wire = ''Man'')
   \<and> writeBody (\<lambda>w. io_Copy w (Some (Reader ''Man'' None))) = Returned (''TWFu'', None)"
proof -
  let ?w = "demo_world 200 []"
  let ?m = "[Msg_SetHeader ''From'' [''mailer@example.org''],
          Msg_SetHeader ''To'' [''ann@example.org''],
          Msg_SetHeader ''Subject'' [''Report''],
          Msg_SetBody ''text/plain'' ''see attachment'',
          Msg_Attach ''report.pdf''
            [SetHeader [(''Content-Type'', [''application/octet-stream''])],
             SetCopyFunc (\<lambda>w. io_Copy w (Some (Reader ''Man'' None)))]]"
  let ?d = "NewDialer ''smtp.example.org'' 587 ''mailer'' ''secret''"
  have run: "SendSMTPEmailMessage ?w (Some (demo_smtp_credentials ''587''))
        (Some ''Report'') (Some ''see attachment'') False
        (Some [\<lparr>Data = Some (Reader ''Man'' None), Name = Some ''report.pdf''\<rparr>])
        (Some [''ann@example.org'']) = (Returned None, [SmtpDialAndSend ?d ?m])"
    by (simp add: SendSMTPEmailMessage_def demo_smtp_credentials_def
          demo_Atoi_587 demo_DialAndSend Let_def)
  have mem: "SmtpDialAndSend ?d ?m \<in> set [SmtpDialAndSend ?d ?m]" by simp
  have plain: "''report.pdf'' \<noteq> [] \<and> CHR ''/'' \<notin> set ''report.pdf''" by simp
  have wire: "writeBody (\<lambda>w. io_Copy w (Some (Reader ''Man'' None))) = Returned (''TWFu'', None)"
    by (simp add: writeBody_def io_Copy_def encodeStd_def base64LineWriter.simps)
  from smtp_attachment_round_trip [OF run mem] plain
  have "\<exists>f copy wire. attachments_of ?m = [f]
      \<and> file_Name f = ''report.pdf''
      \<and> file_Header f = [''Content-Type'' \<mapsto> [''application/octet-stream'']]
      \<and> file_CopyFunc f = CopyFunc copy
      \<and> writeBody copy = Returned (wire, None)
      \<and> read_back wire = ''Man''"
    by (elim exE conjE, intro exI conjI) simp_all
  with run wire show ?thesis by blast
qed

end
